theory Spec2Isabelle
  imports Complex_Main "HOL-Library.Word" "HOL-Library.AList"
begin

section \<open>JavaScript strings and values\<close>

text \<open>
  A JavaScript string is a sequence of 16-bit code units. \<open>js\<close> writes a literal of the
  source (all literals of the controller are ASCII).
\<close>

type_synonym jschar = "16 word"
type_synonym jsstring = "jschar list"

definition js :: "string \<Rightarrow> jsstring" where
  "js s = map of_char s"

text \<open>The code units that \<^verbatim>\<open>String.prototype.trim\<close> strips: WhiteSpace and LineTerminator.\<close>

definition isWhiteSpace :: "jschar \<Rightarrow> bool" where
  "isWhiteSpace u =
     (u \<in> set [0x09, 0x0A, 0x0B, 0x0C, 0x0D, 0x20, 0xA0, 0x1680, 0x2028, 0x2029,
                0x202F, 0x205F, 0x3000, 0xFEFF]
      \<or> (0x2000 \<le> u \<and> u \<le> 0x200A))"

definition trim :: "jsstring \<Rightarrow> jsstring" where
  "trim s = rev (dropWhile isWhiteSpace (rev (dropWhile isWhiteSpace s)))"

text \<open>\<^verbatim>\<open>s.split(sep)\<close> for a one-character separator; the empty string splits into \<open>['']\<close>.\<close>

fun split :: "jschar \<Rightarrow> jsstring \<Rightarrow> jsstring list" where
  "split sep [] = [[]]"
| "split sep (c # cs) =
     (if c = sep then [] # split sep cs
      else (case split sep cs of [] \<Rightarrow> [[c]] | p # ps \<Rightarrow> (c # p) # ps))"

definition comma :: jschar where
  "comma = 0x2C"

text \<open>
  The values that occur in lean documents and request parameters. Numbers are only copied
  and tested for truthiness, never computed with, so a number is a real or NaN. An ObjectId
  is identified with its hexadecimal string, which is what \<^verbatim>\<open>toString()\<close> and the
  conversion to a property key yield.
\<close>

datatype jsval =
    JUndefined
  | JNull
  | JBool bool
  | JNum real
  | JNaN
  | JStr jsstring
  | JDate int
  | JObjectId jsstring

text \<open>ToBoolean, as used by \<^verbatim>\<open>!x\<close> and \<^verbatim>\<open>if (x)\<close>.\<close>

fun truthy :: "jsval \<Rightarrow> bool" where
  "truthy JUndefined = False"
| "truthy JNull = False"
| "truthy (JBool b) = b"
| "truthy (JNum r) = (r \<noteq> 0)"
| "truthy JNaN = False"
| "truthy (JStr s) = (s \<noteq> [])"
| "truthy (JDate t) = True"
| "truthy (JObjectId i) = True"

text \<open>A plain object: own properties by name; reading a missing property gives \<open>undefined\<close>.\<close>

type_synonym jsobject = "jsstring \<rightharpoonup> jsval"

definition getProp :: "jsobject \<Rightarrow> jsstring \<Rightarrow> jsval" where
  "getProp obj k = (case obj k of None \<Rightarrow> JUndefined | Some v \<Rightarrow> v)"

text \<open>\<^verbatim>\<open>xs[i]\<close> on an array of numbers: \<open>undefined\<close> out of range.\<close>

definition numAt :: "real list \<Rightarrow> nat \<Rightarrow> jsval" where
  "numAt xs i = (if i < length xs then JNum (xs ! i) else JUndefined)"

section \<open>Documents of the storage collaborator\<close>

text \<open>
  A sensor sub-document of a box (lean): its \<^verbatim>\<open>_id\<close> and its other properties
  (\<^verbatim>\<open>title\<close>, \<^verbatim>\<open>unit\<close>, \<^verbatim>\<open>sensorType\<close>, ...). A Sidecar Entry is
  such a document after \<^verbatim>\<open>getDataMulti\<close> has added its columns to it.
\<close>

record sensor_doc =
  s_id :: jsstring
  s_props :: jsobject

definition sensorGet :: "sensor_doc \<Rightarrow> jsstring \<Rightarrow> jsval" where
  "sensorGet s k = (if k = js ''_id'' then JObjectId (s_id s) else getProp (s_props s) k)"

text \<open>
  A box document (lean). \<open>b_loc\<close> holds, for each element of \<^verbatim>\<open>loc\<close>, its
  \<^verbatim>\<open>geometry.coordinates\<close>.
\<close>

record box_doc =
  b_id :: jsstring
  b_name :: jsval
  b_exposure :: jsval
  b_loc :: "real list list"
  b_sensors :: "sensor_doc list"

text \<open>A stored measurement, and a row as the cursor hands it to the transform: the
  \<^verbatim>\<open>sensor_id\<close> (an ObjectId) and the other properties of the object.\<close>

record measurement_doc =
  m_sensor_id :: jsstring
  m_createdAt :: int
  m_value :: jsval

record row =
  sensor_id :: jsstring
  r_props :: jsobject

definition rowGet :: "row \<Rightarrow> jsstring \<Rightarrow> jsval" where
  "rowGet data col =
     (if col = js ''sensor_id'' then JObjectId (sensor_id data) else getProp (r_props data) col)"

text \<open>What a handler or a stream stage throws.\<close>

datatype thrown = TypeError | TimestampError | StorageError

section \<open>getDataMulti: the Sidecar and the row transform\<close>

type_synonym sidecar = "(jsstring \<times> sensor_doc) list"

text \<open>The body of the \<^verbatim>\<open>if (... .title === phenomenon)\<close> block: the seven assignments
  to the sensor object. \<open>coords\<close> is \<^verbatim>\<open>boxData[i].loc[0].geometry.coordinates\<close>.\<close>

definition sidecarEntry :: "box_doc \<Rightarrow> real list \<Rightarrow> sensor_doc \<Rightarrow> sensor_doc" where
  "sidecarEntry box coords sensor =
     sensor\<lparr>s_props := (s_props sensor)
       (js ''lat'' \<mapsto> numAt coords 0,
        js ''lng'' \<mapsto> numAt coords 1,
        js ''boxId'' \<mapsto> JStr (b_id box),
        js ''boxName'' \<mapsto> b_name box,
        js ''exposure'' \<mapsto> b_exposure box,
        js ''sensorId'' \<mapsto> JStr (s_id sensor),
        js ''phenomenon'' \<mapsto> getProp (s_props sensor) (js ''title''))\<rparr>"

text \<open>The inner loop over \<^verbatim>\<open>boxData[i].sensors\<close>; \<^verbatim>\<open>loc[0]\<close> of an empty
  \<^verbatim>\<open>loc\<close> is \<open>undefined\<close> and reading its \<^verbatim>\<open>geometry\<close> throws.\<close>

fun addSensors :: "jsstring \<Rightarrow> box_doc \<Rightarrow> sensor_doc list \<Rightarrow> sidecar \<Rightarrow> thrown + sidecar" where
  "addSensors phenomenon box [] sensors = Inr sensors"
| "addSensors phenomenon box (s # ss) sensors =
     (if getProp (s_props s) (js ''title'') = JStr phenomenon then
        (case b_loc box of
           [] \<Rightarrow> Inl TypeError
         | coords # _ \<Rightarrow>
             addSensors phenomenon box ss
               (AList.update (s_id s) (sidecarEntry box coords s) sensors))
      else addSensors phenomenon box ss sensors)"

text \<open>The outer loop over \<^verbatim>\<open>boxData\<close>.\<close>

fun buildSidecar :: "jsstring \<Rightarrow> box_doc list \<Rightarrow> sidecar \<Rightarrow> thrown + sidecar" where
  "buildSidecar phenomenon [] sensors = Inr sensors"
| "buildSidecar phenomenon (box # boxes) sensors =
     (case addSensors phenomenon box (b_sensors box) sensors of
        Inl e \<Rightarrow> Inl e
      | Inr sensors' \<Rightarrow> buildSidecar phenomenon boxes sensors')"

text \<open>The loop \<^verbatim>\<open>for (const col of columns)\<close> of the transform. Reading a property of
  \<^verbatim>\<open>sensors[data.sensor_id]\<close> throws when there is no such entry. The assignment is
  never reached for \<^verbatim>\<open>sensor_id\<close> itself, an ObjectId being truthy.\<close>

fun fillColumns :: "sidecar \<Rightarrow> jsstring list \<Rightarrow> row \<Rightarrow> thrown + row" where
  "fillColumns sensors [] data = Inr data"
| "fillColumns sensors (col # cols) data =
     (if \<not> truthy (rowGet data col) then
        (case map_of sensors (sensor_id data) of
           None \<Rightarrow> Inl TypeError
         | Some entry \<Rightarrow>
             fillColumns sensors cols
               (data\<lparr>r_props := (r_props data)(col \<mapsto> sensorGet entry col)\<rparr>))
      else fillColumns sensors cols data)"

text \<open>The first statement of the transform. \<^verbatim>\<open>utils.parseTimestamp\<close> is not part of
  the controller: \<open>toISO\<close> stands for \<^verbatim>\<open>utils.parseTimestamp(v).toISOString()\<close>, with
  \<open>None\<close> when that throws.\<close>

definition normalizeCreatedAt :: "(jsval \<Rightarrow> jsval option) \<Rightarrow> row \<Rightarrow> thrown + row" where
  "normalizeCreatedAt toISO data =
     (case toISO (rowGet data (js ''createdAt'')) of
        None \<Rightarrow> Inl TimestampError
      | Some v \<Rightarrow> Inr (data\<lparr>r_props := (r_props data)(js ''createdAt'' \<mapsto> v)\<rparr>))"

definition transformer ::
  "(jsval \<Rightarrow> jsval option) \<Rightarrow> sidecar \<Rightarrow> jsstring list \<Rightarrow> row \<Rightarrow> thrown + row" where
  "transformer toISO sensors columns data =
     (case normalizeCreatedAt toISO data of
        Inl e \<Rightarrow> Inl e
      | Inr data0 \<Rightarrow> fillColumns sensors columns data0)"

section \<open>Requests, collaborators and errors\<close>

text \<open>The errors handed to \<^verbatim>\<open>next\<close>. \<open>TimeError\<close> is what
  \<^verbatim>\<open>utils.parseTimeParameter\<close> and \<^verbatim>\<open>utils.validateTimeParameters\<close> return
  for a bad window; \<open>InternalServerError\<close> carries what was thrown.\<close>

datatype error =
    TimeError
  | InvalidArgumentError jsstring
  | UnprocessableEntityError jsstring
  | BadRequestError jsstring
  | NotFoundError jsstring
  | UnsupportedMediaTypeError jsstring
  | InternalServerError thrown

datatype format = Json | Csv

text \<open>
  What the export handlers read from the request. \<open>req_boxId\<close> and \<open>req_bbox\<close> are
  \<^verbatim>\<open>req.boxId\<close> and \<^verbatim>\<open>req.bbox\<close>, set by the routing layer; \<open>req_format\<close> and
  \<open>req_delimiter\<close> are the results of \<^verbatim>\<open>requestUtils.getRequestedFormat\<close> (\<open>None\<close>
  for \<open>undefined\<close>) and \<^verbatim>\<open>requestUtils.getDelimiter\<close>; the others are
  \<^verbatim>\<open>req.params[...]\<close>, \<open>None\<close> when the parameter is \<open>undefined\<close>.
\<close>

record request =
  req_to_date :: "jsstring option"
  req_from_date :: "jsstring option"
  req_columns :: "jsstring option"
  req_phenomenon :: "jsstring option"
  req_exposure :: "jsstring option"
  req_boxId :: "jsstring option"
  req_bbox :: "real list option"
  req_sensorId :: jsstring
  req_format_param :: "jsstring option"
  req_format :: "format option"
  req_delimiter :: jsstring
  req_download :: "jsstring option"

text \<open>The query objects handed to the storage collaborator.\<close>

record box_query =
  q_sensors_title :: jsstring
  q_id_in :: "jsstring list option"
  q_geoWithin :: "(jsval \<times> jsval) list list option"
  q_exposure :: "jsstring option"

datatype id_cond = IdEq jsstring | IdIn "jsstring list"

datatype date_cond = Gt int | Gte int | Lt int | Lte int

record measurement_query =
  q_sensor_id :: id_cond
  q_createdAt :: "date_cond list"
  q_limit :: "nat option"

text \<open>
  The collaborators: the clock (\<^verbatim>\<open>moment()\<close>, in milliseconds), the timestamp parser
  behind \<^verbatim>\<open>utils.parseTimeParameter\<close>, the two timestamp formatters of the row
  transforms (\<^verbatim>\<open>new Date(v).toISOString()\<close> and
  \<^verbatim>\<open>utils.parseTimestamp(v).toISOString()\<close>, \<open>None\<close> when they throw), the bulk read
  \<^verbatim>\<open>Box.find(queryParams).lean().exec()\<close> and the stored measurements.
\<close>

record env =
  e_now :: int
  e_parseTime :: "jsstring \<Rightarrow> int option"
  e_dateToISO :: "jsval \<Rightarrow> jsval option"
  e_parseTimestampToISO :: "jsval \<Rightarrow> jsval option"
  e_boxFind :: "box_query \<Rightarrow> thrown + box_doc list"
  e_measurements :: "measurement_doc list"

text \<open>What a handler does that can be observed from outside, in order.\<close>

datatype event =
    BoxFind box_query
  | MeasurementFind measurement_query
  | ResHeader jsstring jsstring

section \<open>The storage collaborator's measurement cursor\<close>

fun idMatches :: "id_cond \<Rightarrow> jsstring \<Rightarrow> bool" where
  "idMatches (IdEq i) x = (x = i)"
| "idMatches (IdIn is) x = (x \<in> set is)"

fun dateMatches :: "date_cond \<Rightarrow> int \<Rightarrow> bool" where
  "dateMatches (Gt b) t = (b < t)"
| "dateMatches (Gte b) t = (b \<le> t)"
| "dateMatches (Lt b) t = (t < b)"
| "dateMatches (Lte b) t = (t \<le> b)"

definition queryMatches :: "measurement_query \<Rightarrow> measurement_doc \<Rightarrow> bool" where
  "queryMatches q m =
     (idMatches (q_sensor_id q) (m_sensor_id m) \<and>
      list_all (\<lambda>c. dateMatches c (m_createdAt m)) (q_createdAt q))"

text \<open>\<^verbatim>\<open>Measurement.find(qry).limit(n)\<close>: the stored documents that match, in storage
  order, cut off at the limit.\<close>

definition measurementFind :: "measurement_query \<Rightarrow> measurement_doc list \<Rightarrow> measurement_doc list" where
  "measurementFind q ms =
     (case q_limit q of
        None \<Rightarrow> filter (queryMatches q) ms
      | Some n \<Rightarrow> take n (filter (queryMatches q) ms))"

text \<open>The projections of the two exports:
  \<^verbatim>\<open>{ createdAt: 1, value: 1, _id: 0 }\<close> and
  \<^verbatim>\<open>{ createdAt: 1, value: 1, _id: 0, sensor_id: 1 }\<close>.\<close>

definition projectData :: "measurement_doc \<Rightarrow> jsobject" where
  "projectData m = [js ''createdAt'' \<mapsto> JDate (m_createdAt m), js ''value'' \<mapsto> m_value m]"

definition projectDataMulti :: "measurement_doc \<Rightarrow> row" where
  "projectDataMulti m =
     \<lparr>sensor_id = m_sensor_id m,
      r_props = [js ''createdAt'' \<mapsto> JDate (m_createdAt m), js ''value'' \<mapsto> m_value m]\<rparr>"

section \<open>The stream stages\<close>

text \<open>A transform stage over the rows of the cursor, in order; the first row on which the
  transform throws ends the pipeline with that error (output already written is not
  modelled).\<close>

fun pipeRows :: "('a \<Rightarrow> thrown + 'b) \<Rightarrow> 'a list \<Rightarrow> thrown + 'b list" where
  "pipeRows f [] = Inr []"
| "pipeRows f (x # xs) =
     (case f x of
        Inl e \<Rightarrow> Inl e
      | Inr y \<Rightarrow> (case pipeRows f xs of Inl e \<Rightarrow> Inl e | Inr ys \<Rightarrow> Inr (y # ys)))"

text \<open>
  Modelled from the spec: the CSV serializer \<^verbatim>\<open>csvstringify({ columns, header: 1,
  delimiter })\<close>, a library that is not part of the controller. Section 4.4 of the
  specification: a header row of the column names followed by one line per record, the
  fields in the configured column order, with the caller-selected delimiter. A line is kept
  as the list of its cells; \<open>get\<close> reads a column of a record.
\<close>

record csv_output =
  csv_delimiter :: jsstring
  csv_header :: "jsstring list"
  csv_records :: "jsval list list"

definition csvstringify ::
  "('r \<Rightarrow> jsstring \<Rightarrow> jsval) \<Rightarrow> jsstring list \<Rightarrow> jsstring \<Rightarrow> 'r list \<Rightarrow> csv_output" where
  "csvstringify get columns delim rows =
     \<lparr>csv_delimiter = delim,
      csv_header = columns,
      csv_records = map (\<lambda>r. map (get r) columns) rows\<rparr>"

definition csv_lines :: "csv_output \<Rightarrow> jsval list list" where
  "csv_lines out = map JStr (csv_header out) # csv_records out"

datatype export_output = CsvOutput csv_output | JsonOutput "jsobject list"

section \<open>The time window\<close>

text \<open>
  Modelled from the spec: \<^verbatim>\<open>utils.parseTimeParameter(req, next, name, default)\<close>, which
  is not part of the controller. Section 4.2: each bound independently defaults per call
  site, and resolution fails if a bound fails to parse.
\<close>

definition parseTimeParameter :: "(jsstring \<Rightarrow> int option) \<Rightarrow> jsstring option \<Rightarrow> int \<Rightarrow> error + int" where
  "parseTimeParameter parse param dflt =
     (case param of
        None \<Rightarrow> Inr dflt
      | Some s \<Rightarrow> (case parse s of None \<Rightarrow> Inl TimeError | Some t \<Rightarrow> Inr t))"

text \<open>
  Modelled from the spec: \<^verbatim>\<open>utils.validateTimeParameters(toDate, fromDate)\<close>, which is
  not part of the controller; it returns \<open>undefined\<close> (\<open>None\<close>) for a valid window.
  Section 4.2: resolution fails if \<open>from\<close> is not strictly before \<open>to\<close>.
\<close>

definition validateTimeParameters :: "int \<Rightarrow> int \<Rightarrow> error option" where
  "validateTimeParameters toDate fromDate = (if fromDate < toDate then None else Some TimeError)"

text \<open>The first block of both export handlers; \<open>delta\<close> is what the handler subtracts
  from the to-date for the default from-date. The result is \<open>(fromDate, toDate)\<close>.\<close>

definition timeWindow :: "env \<Rightarrow> request \<Rightarrow> int \<Rightarrow> error + (int \<times> int)" where
  "timeWindow env req delta =
     (case parseTimeParameter (e_parseTime env) (req_to_date req) (e_now env) of
        Inl e \<Rightarrow> Inl e
      | Inr toDate \<Rightarrow>
          (case parseTimeParameter (e_parseTime env) (req_from_date req) (toDate - delta) of
             Inl e \<Rightarrow> Inl e
           | Inr fromDate \<Rightarrow>
               (case validateTimeParameters toDate fromDate of
                  Some e \<Rightarrow> Inl e
                | None \<Rightarrow> Inr (fromDate, toDate))))"

text \<open>\<^verbatim>\<open>subtract(48, 'hours')\<close> and \<^verbatim>\<open>subtract(15, 'days')\<close> (days of a UTC
  moment), in milliseconds.\<close>

definition HOURS_48 :: int where
  "HOURS_48 = 48 * 60 * 60 * 1000"

definition DAYS_15 :: int where
  "DAYS_15 = 15 * 24 * 60 * 60 * 1000"

definition getData_timeWindow :: "env \<Rightarrow> request \<Rightarrow> error + (int \<times> int)" where
  "getData_timeWindow env req = timeWindow env req HOURS_48"

definition getDataMulti_timeWindow :: "env \<Rightarrow> request \<Rightarrow> error + (int \<times> int)" where
  "getDataMulti_timeWindow env req = timeWindow env req DAYS_15"

section \<open>getData: the single-sensor export\<close>

definition csvTransformer :: "(jsval \<Rightarrow> jsval option) \<Rightarrow> jsobject \<Rightarrow> thrown + jsobject" where
  "csvTransformer dateToISO data =
     (case dateToISO (getProp data (js ''createdAt'')) of
        None \<Rightarrow> Inl TimestampError
      | Some v \<Rightarrow> Inr (data(js ''createdAt'' \<mapsto> v)))"

definition formatName :: "format \<Rightarrow> jsstring" where
  "formatName f = (case f of Json \<Rightarrow> js ''json'' | Csv \<Rightarrow> js ''csv'')"

definition getData_headers :: "request \<Rightarrow> format \<Rightarrow> event list" where
  "getData_headers req f =
     (case f of
        Csv \<Rightarrow> [ResHeader (js ''Content-Type'') (js ''text/csv'')]
      | Json \<Rightarrow> [ResHeader (js ''Content-Type'') (js ''application/json; charset=utf-8'')])
     @ (if f = Csv \<or> req_download req = Some (js ''true'')
        then [ResHeader (js ''Content-Disposition'')
                (js ''attachment; filename='' @ req_sensorId req @ js ''.'' @ formatName f)]
        else [])"

definition queryLimit :: nat where
  "queryLimit = 10000"

definition getData_qry :: "jsstring \<Rightarrow> int \<Rightarrow> int \<Rightarrow> measurement_query" where
  "getData_qry sensorId fromDate toDate =
     \<lparr>q_sensor_id = IdEq sensorId, q_createdAt = [Gte fromDate, Lte toDate],
      q_limit = Some queryLimit\<rparr>"

definition getData :: "env \<Rightarrow> request \<Rightarrow> event list \<times> (error + export_output)" where
  "getData env req =
     (case getData_timeWindow env req of
        Inl e \<Rightarrow> ([], Inl e)
      | Inr (fromDate, toDate) \<Rightarrow>
          (case req_format req of
             None \<Rightarrow>
               ([], Inl (InvalidArgumentError
                   (js ''Invalid format: '' @
                    (case req_format_param req of None \<Rightarrow> js ''undefined'' | Some s \<Rightarrow> s))))
           | Some f \<Rightarrow>
               (let qry = getData_qry (req_sensorId req) fromDate toDate;
                    rows = map projectData (measurementFind qry (e_measurements env))
                in (getData_headers req f @ [MeasurementFind qry],
                    (case pipeRows (csvTransformer (e_dateToISO env)) rows of
                       Inl t \<Rightarrow> Inl (InternalServerError t)
                     | Inr rows' \<Rightarrow>
                         Inr (case f of
                                Csv \<Rightarrow>
                                  CsvOutput (csvstringify getProp [js ''createdAt'', js ''value'']
                                    (req_delimiter req) rows')
                              | Json \<Rightarrow> JsonOutput rows'))))))"

section \<open>getDataMulti: the multi-box export\<close>

definition GET_DATA_MULTI_DEFAULT_COLUMNS :: "jsstring list" where
  "GET_DATA_MULTI_DEFAULT_COLUMNS = map js [''createdAt'', ''value'', ''lat'', ''lng'']"

definition GET_DATA_MULTI_ALLOWED_COLUMNS :: "jsstring list" where
  "GET_DATA_MULTI_ALLOWED_COLUMNS =
     map js [''createdAt'', ''value'', ''lat'', ''lng'', ''unit'', ''boxId'', ''sensorId'',
             ''phenomenon'', ''sensorType'', ''boxName'', ''exposure'']"

text \<open>The block \<^verbatim>\<open>// column parameter\<close>.\<close>

definition columnsParameter :: "jsstring option \<Rightarrow> error + jsstring list" where
  "columnsParameter columnsParam =
     (case columnsParam of
        None \<Rightarrow> Inr GET_DATA_MULTI_DEFAULT_COLUMNS
      | Some p \<Rightarrow>
          (if trim p \<noteq> [] then
             (let columns = split comma p
              in if list_ex (\<lambda>c. c \<notin> set GET_DATA_MULTI_ALLOWED_COLUMNS) columns
                 then Inl (UnprocessableEntityError (js ''illegal columns parameter''))
                 else Inr columns)
           else Inr GET_DATA_MULTI_DEFAULT_COLUMNS))"

text \<open>The phenomenon of \<^verbatim>\<open>// build query\<close>.\<close>

definition phenomenonParameter :: "jsstring option \<Rightarrow> error + jsstring" where
  "phenomenonParameter phenomenon =
     (case phenomenon of
        None \<Rightarrow> Inl (BadRequestError (js ''invalid phenomenon parameter''))
      | Some p \<Rightarrow>
          (if p \<noteq> [] \<and> trim p \<noteq> [] then Inr (trim p)
           else Inl (BadRequestError (js ''invalid phenomenon parameter''))))"

text \<open>ToBoolean of \<^verbatim>\<open>req.boxId\<close> (a string or \<open>undefined\<close>) and of \<^verbatim>\<open>req.bbox\<close>
  (an array or \<open>undefined\<close>; every array is truthy).\<close>

definition boxIdGiven :: "jsstring option \<Rightarrow> bool" where
  "boxIdGiven boxId = (case boxId of None \<Rightarrow> False | Some s \<Rightarrow> s \<noteq> [])"

definition bboxGiven :: "real list option \<Rightarrow> bool" where
  "bboxGiven bbox = (bbox \<noteq> None)"

definition bboxPolygon :: "real list \<Rightarrow> (jsval \<times> jsval) list list" where
  "bboxPolygon bbox =
     [[(numAt bbox 0, numAt bbox 1),
       (numAt bbox 0, numAt bbox 3),
       (numAt bbox 2, numAt bbox 3),
       (numAt bbox 2, numAt bbox 1),
       (numAt bbox 0, numAt bbox 1)]]"

text \<open>The \<^verbatim>\<open>if (req.boxId && req.bbox)\<close> chain: the \<^verbatim>\<open>_id\<close> and
  \<^verbatim>\<open>loc.geometry\<close> entries of the query.\<close>

definition boxSelection ::
  "jsstring option \<Rightarrow> real list option \<Rightarrow>
   error + (jsstring list option \<times> (jsval \<times> jsval) list list option)" where
  "boxSelection boxId bbox =
     (if boxIdGiven boxId \<and> bboxGiven bbox then
        Inl (BadRequestError (js ''please specify only boxId or bbox''))
      else if boxIdGiven boxId \<or> bboxGiven bbox then
        (let byBbox = (case bbox of
                         Some b \<Rightarrow> Inr (None, Some (bboxPolygon b))
                       | None \<Rightarrow> Inr (None, None))
         in case boxId of
              Some s \<Rightarrow> (if s \<noteq> [] then Inr (Some (split comma s), None) else byBbox)
            | None \<Rightarrow> byBbox)
      else Inl (BadRequestError (js ''please specify either boxId or bbox'')))"

text \<open>The block \<^verbatim>\<open>// exposure parameter\<close>.\<close>

definition exposureParameter :: "jsstring option \<Rightarrow> error + jsstring option" where
  "exposureParameter exposure =
     (case exposure of
        None \<Rightarrow> Inr None
      | Some x \<Rightarrow>
          (if x \<noteq> [] then
             (let exposureParam = trim x
              in if exposureParam = js ''indoor'' \<or> exposureParam = js ''outdoor''
                 then Inr (Some exposureParam)
                 else Inl (UnprocessableEntityError
                        (js ''exposure column should be indoor or outdoor'')))
           else Inr None))"

text \<open>Everything \<^verbatim>\<open>getDataMulti\<close> does before \<^verbatim>\<open>Box.find\<close>, in the order of the
  source: the first failing check returns its error.\<close>

record multi_params =
  mp_fromDate :: int
  mp_toDate :: int
  mp_columns :: "jsstring list"
  mp_phenomenon :: jsstring
  mp_queryParams :: box_query

definition getDataMulti_params :: "env \<Rightarrow> request \<Rightarrow> error + multi_params" where
  "getDataMulti_params env req =
     (case getDataMulti_timeWindow env req of
        Inl e \<Rightarrow> Inl e
      | Inr (fromDate, toDate) \<Rightarrow>
     (case columnsParameter (req_columns req) of
        Inl e \<Rightarrow> Inl e
      | Inr columns \<Rightarrow>
     (case phenomenonParameter (req_phenomenon req) of
        Inl e \<Rightarrow> Inl e
      | Inr phenomenon \<Rightarrow>
     (case boxSelection (req_boxId req) (req_bbox req) of
        Inl e \<Rightarrow> Inl e
      | Inr (ids, polygon) \<Rightarrow>
     (case exposureParameter (req_exposure req) of
        Inl e \<Rightarrow> Inl e
      | Inr exposure \<Rightarrow>
          Inr \<lparr>mp_fromDate = fromDate, mp_toDate = toDate, mp_columns = columns,
               mp_phenomenon = phenomenon,
               mp_queryParams =
                 \<lparr>q_sensors_title = phenomenon, q_id_in = ids, q_geoWithin = polygon,
                  q_exposure = exposure\<rparr>\<rparr>)))))"

text \<open>The query of the measurement cursor: \<^verbatim>\<open>Object.keys(sensors)\<close> are the keys of
  the Sidecar, in insertion order.\<close>

definition getDataMulti_qry :: "sidecar \<Rightarrow> int \<Rightarrow> int \<Rightarrow> measurement_query" where
  "getDataMulti_qry sensors fromDate toDate =
     \<lparr>q_sensor_id = IdIn (map fst sensors), q_createdAt = [Gt fromDate, Lt toDate],
      q_limit = None\<rparr>"

text \<open>The stream of the \<^verbatim>\<open>then\<close> callback: cursor, transform, serializer.\<close>

definition getDataMulti_stream ::
  "env \<Rightarrow> request \<Rightarrow> multi_params \<Rightarrow> sidecar \<Rightarrow> error + csv_output" where
  "getDataMulti_stream env req p sensors =
     (let rows = map projectDataMulti
                   (measurementFind (getDataMulti_qry sensors (mp_fromDate p) (mp_toDate p))
                      (e_measurements env))
      in case pipeRows (transformer (e_parseTimestampToISO env) sensors (mp_columns p)) rows of
           Inl t \<Rightarrow> Inl (InternalServerError t)
         | Inr rows' \<Rightarrow> Inr (csvstringify rowGet (mp_columns p) (req_delimiter req) rows'))"

definition getDataMulti :: "env \<Rightarrow> request \<Rightarrow> event list \<times> (error + csv_output)" where
  "getDataMulti env req =
     (case getDataMulti_params env req of
        Inl e \<Rightarrow> ([], Inl e)
      | Inr p \<Rightarrow>
          (case e_boxFind env (mp_queryParams p) of
             Inl t \<Rightarrow> ([BoxFind (mp_queryParams p)], Inl (InternalServerError t))
           | Inr boxData \<Rightarrow>
               (case buildSidecar (mp_phenomenon p) boxData [] of
                  Inl t \<Rightarrow> ([BoxFind (mp_queryParams p)], Inl (InternalServerError t))
                | Inr sensors \<Rightarrow>
                    ([BoxFind (mp_queryParams p),
                      ResHeader (js ''Content-Type'') (js ''text/csv''),
                      MeasurementFind
                        (getDataMulti_qry sensors (mp_fromDate p) (mp_toDate p))],
                     getDataMulti_stream env req p sensors))))"

section \<open>findBox: the single-box view\<close>





section \<open>Ingestion: postNewMeasurement and postNewMeasurements\<close>

text \<open>
  The decoders (\<^verbatim>\<open>decodeHandlers\<close>) and the box model are not part of the controller. A
  decoder is a function from the body to the decoded measurements (of a type \<open>'m\<close> the
  controller never looks into), or to the message of the error it throws. A rejected
  promise carries the error's \<^verbatim>\<open>message\<close> and its string form.
\<close>

datatype rejection = Rejection jsstring jsstring

datatype 'm ingest_event =
    BoxFindOne jsval
  | SaveMeasurement "'m option"
  | SaveMeasurementsArray "'m list"
  | NextError error
  | ResSend nat jsstring

text \<open>The handler of \<^verbatim>\<open>.catch\<close>: \<^verbatim>\<open>`${err.message}. ${err}`\<close>.\<close>

definition catchRejection :: "rejection \<Rightarrow> error" where
  "catchRejection r = (case r of Rejection m s \<Rightarrow> UnprocessableEntityError (m @ js ''. '' @ s))"

text \<open>\<^verbatim>\<open>measurements[0]\<close>: \<open>undefined\<close> for an empty array.\<close>

definition firstMeasurement :: "'m list \<Rightarrow> 'm option" where
  "firstMeasurement ms = (case ms of [] \<Rightarrow> None | m # _ \<Rightarrow> Some m)"

text \<open>A \<^verbatim>\<open>return next(...)\<close> inside the first \<^verbatim>\<open>then\<close> resolves the promise, so the
  second \<^verbatim>\<open>then\<close> still sends its 201.\<close>

definition postNewMeasurement ::
  "(jsobject list \<Rightarrow> jsstring + 'm list) \<Rightarrow> (jsval \<Rightarrow> rejection + 'box option) \<Rightarrow>
   ('box \<Rightarrow> 'm option \<Rightarrow> rejection + unit) \<Rightarrow> jsval \<Rightarrow> jsval \<Rightarrow> jsval \<Rightarrow> jsval \<Rightarrow>
   'm ingest_event list" where
  "postNewMeasurement decodeMessage findOne saveMeasurement boxId sensorId val createdAt =
     (case decodeMessage
             [[js ''sensor_id'' \<mapsto> sensorId, js ''value'' \<mapsto> val, js ''createdAt'' \<mapsto> createdAt]] of
        Inl message \<Rightarrow> [NextError (UnprocessableEntityError message)]
      | Inr measurements \<Rightarrow>
          BoxFindOne boxId #
          (case findOne boxId of
             Inl r \<Rightarrow> [NextError (catchRejection r)]
           | Inr None \<Rightarrow>
               [NextError (NotFoundError (js ''no senseBox found'')),
                ResSend 201 (js ''Measurement saved in box'')]
           | Inr (Some box) \<Rightarrow>
               SaveMeasurement (firstMeasurement measurements) #
               (case saveMeasurement box (firstMeasurement measurements) of
                  Inl r \<Rightarrow> [NextError (catchRejection r)]
                | Inr u \<Rightarrow> [ResSend 201 (js ''Measurement saved in box'')])))"

text \<open>\<^verbatim>\<open>req.path().split('/')[2]\<close>.\<close>

definition slash :: jschar where
  "slash = 0x2F"

definition pathBoxId :: "jsstring \<Rightarrow> jsval" where
  "pathBoxId path =
     (let parts = split slash path in if 2 < length parts then JStr (parts ! 2) else JUndefined)"

text \<open>\<open>contentType\<close> is \<^verbatim>\<open>req.contentType().toLowerCase()\<close>; \<open>decodeHandlers\<close> gives
  the \<^verbatim>\<open>decodeMessage\<close> of the handler registered for it.\<close>

definition postNewMeasurements ::
  "(jsstring \<Rightarrow> ('b \<Rightarrow> jsstring + 'm list) option) \<Rightarrow> (jsval \<Rightarrow> rejection + 'box option) \<Rightarrow>
   ('box \<Rightarrow> 'm list \<Rightarrow> rejection + unit) \<Rightarrow> jsstring \<Rightarrow> jsstring \<Rightarrow> 'b \<Rightarrow>
   'm ingest_event list" where
  "postNewMeasurements decodeHandlers findOne saveMeasurementsArray path contentType body =
     (let boxId = pathBoxId path
      in case decodeHandlers contentType of
           Some decodeMessage \<Rightarrow>
             (case decodeMessage body of
                Inl message \<Rightarrow> [NextError (UnprocessableEntityError message)]
              | Inr measurements \<Rightarrow>
                  BoxFindOne boxId #
                  (case findOne boxId of
                     Inl r \<Rightarrow> [NextError (catchRejection r)]
                   | Inr None \<Rightarrow>
                       [NextError (NotFoundError (js ''no senseBox found'')),
                        ResSend 201 (js ''Measurements saved in box'')]
                   | Inr (Some box) \<Rightarrow>
                       SaveMeasurementsArray measurements #
                       (case saveMeasurementsArray box measurements of
                          Inl r \<Rightarrow> [NextError (catchRejection r)]
                        | Inr u \<Rightarrow> [ResSend 201 (js ''Measurements saved in box'')])))
         | None \<Rightarrow> [NextError (UnsupportedMediaTypeError (js ''Unsupported content-type.''))])"

text \<open>The events of an ingestion that touch the storage collaborator.\<close>

fun isStorageEvent :: "'m ingest_event \<Rightarrow> bool" where
  "isStorageEvent (BoxFindOne i) = True"
| "isStorageEvent (SaveMeasurement m) = True"
| "isStorageEvent (SaveMeasurementsArray ms) = True"
| "isStorageEvent (NextError e) = False"
| "isStorageEvent (ResSend c s) = False"

section \<open>Example data\<close>

text \<open>The box of the API documentation of \<^verbatim>\<open>findBox\<close>, with its air-pressure sensor,
  and measurements of that sensor.\<close>

definition exampleSensor :: sensor_doc where
  "exampleSensor =
     \<lparr>s_id = js ''57000b8745fd40c8196ad050'',
      s_props = [js ''title'' \<mapsto> JStr (js ''Luftdruck''), js ''unit'' \<mapsto> JStr (js ''hPa''),
                 js ''sensorType'' \<mapsto> JStr (js ''BMP280'')]\<rparr>"

definition exampleBox :: box_doc where
  "exampleBox =
     \<lparr>b_id = js ''57000b8745fd40c8196ad04c'',
      b_name = JStr (js ''Oststr/Mauritzsteinpfad''),
      b_exposure = JStr (js ''outdoor''),
      b_loc = [[7.64568, 51.962372]],
      b_sensors = [exampleSensor]\<rparr>"

definition exampleSidecar :: sidecar where
  "exampleSidecar =
     [(js ''57000b8745fd40c8196ad050'',
       sidecarEntry exampleBox [7.64568, 51.962372] exampleSensor)]"

text \<open>The timestamp formatter on the one instant the examples use.\<close>

definition exampleToISO :: "jsval \<Rightarrow> jsval option" where
  "exampleToISO v =
     (if v = JDate 1478899321675 then Some (JStr (js ''2016-11-11T21:22:01.675Z'')) else None)"

definition exampleRow :: "jsstring \<Rightarrow> jsval \<Rightarrow> row" where
  "exampleRow sid v =
     \<lparr>sensor_id = sid,
      r_props = [js ''createdAt'' \<mapsto> JDate 1478899321675, js ''value'' \<mapsto> v]\<rparr>"

definition exampleRowOut :: "jsval \<Rightarrow> row" where
  "exampleRowOut v =
     \<lparr>sensor_id = js ''57000b8745fd40c8196ad050'',
      r_props = [js ''createdAt'' \<mapsto> JDate 1478899321675, js ''value'' \<mapsto> v,
                 js ''createdAt'' \<mapsto> JStr (js ''2016-11-11T21:22:01.675Z''),
                 js ''lat'' \<mapsto> JNum 7.64568, js ''lng'' \<mapsto> JNum 51.962372]\<rparr>"

text \<open>The same row when its \<^verbatim>\<open>value\<close> has been assigned \<open>v'\<close> by the transform.\<close>

definition exampleRowOut' :: "jsval \<Rightarrow> jsval \<Rightarrow> row" where
  "exampleRowOut' v v' =
     \<lparr>sensor_id = js ''57000b8745fd40c8196ad050'',
      r_props = [js ''createdAt'' \<mapsto> JDate 1478899321675, js ''value'' \<mapsto> v,
                 js ''createdAt'' \<mapsto> JStr (js ''2016-11-11T21:22:01.675Z''),
                 js ''value'' \<mapsto> v',
                 js ''lat'' \<mapsto> JNum 7.64568, js ''lng'' \<mapsto> JNum 51.962372]\<rparr>"

text \<open>The example row of a sensor after the first statement of the transform only.\<close>

definition exampleRowISO :: "jsstring \<Rightarrow> jsval \<Rightarrow> row" where
  "exampleRowISO sid v =
     \<lparr>sensor_id = sid,
      r_props = [js ''value'' \<mapsto> v,
                 js ''createdAt'' \<mapsto> JStr (js ''2016-11-11T21:22:01.675Z'')]\<rparr>"

text \<open>Two stored measurements at the instant of the examples: one of the example sensor
  and one of the UV sensor of the same box, which measures another phenomenon.\<close>

definition exampleMeasurements :: "measurement_doc list" where
  "exampleMeasurements =
     [\<lparr>m_sensor_id = js ''57000b8745fd40c8196ad050'', m_createdAt = 1478899321675,
       m_value = JStr (js ''1019.21'')\<rparr>,
      \<lparr>m_sensor_id = js ''57000b8745fd40c8196ad04e'', m_createdAt = 1478899321675,
       m_value = JStr (js ''0'')\<rparr>]"

text \<open>A request for the air pressure of the example box with no time bounds and no
  columns, served at an instant shortly after the example measurements, by a storage
  collaborator that holds the example box and the example measurements.\<close>

definition exampleRequest :: request where
  "exampleRequest =
     \<lparr>req_to_date = None, req_from_date = None, req_columns = None,
      req_phenomenon = Some (js ''Luftdruck''), req_exposure = None,
      req_boxId = Some (js ''57000b8745fd40c8196ad04c''), req_bbox = None,
      req_sensorId = js ''57000b8745fd40c8196ad050'', req_format_param = Some (js ''csv''),
      req_format = Some Csv, req_delimiter = js '','', req_download = None\<rparr>"

text \<open>The timestamp parser on the two timestamps the examples use.\<close>

definition exampleParseTime :: "jsstring \<Rightarrow> int option" where
  "exampleParseTime s =
     (if s = js ''2016-11-10T00:00:00.000Z'' then Some 1478736000000
      else if s = js ''2016-11-11T21:22:01.675Z'' then Some 1478899321675
      else None)"

definition exampleEnv :: env where
  "exampleEnv =
     \<lparr>e_now = 1478900000000, e_parseTime = exampleParseTime, e_dateToISO = exampleToISO,
      e_parseTimestampToISO = exampleToISO, e_boxFind = (\<lambda>q. Inr [exampleBox]),
      e_measurements = exampleMeasurements\<rparr>"

text \<open>What the example request resolves to: the last fifteen days, the default columns,
  the box by its id.\<close>

definition exampleParams :: multi_params where
  "exampleParams =
     \<lparr>mp_fromDate = 1477604000000, mp_toDate = 1478900000000,
      mp_columns = GET_DATA_MULTI_DEFAULT_COLUMNS, mp_phenomenon = js ''Luftdruck'',
      mp_queryParams =
        \<lparr>q_sensors_title = js ''Luftdruck'', q_id_in = Some [js ''57000b8745fd40c8196ad04c''],
         q_geoWithin = None, q_exposure = None\<rparr>\<rparr>"

text \<open>Stand-ins for the decoders and the box model in the examples of the ingestion: a
  JSON decoder that refuses a measurement without a value, a body decoder that refuses an
  empty body, a store that holds only the example box, and saves that succeed.\<close>

definition exampleJsonDecode :: "jsobject list \<Rightarrow> jsstring + jsobject list" where
  "exampleJsonDecode body =
     (if list_ex (\<lambda>m. getProp m (js ''value'') = JUndefined) body
      then Inl (js ''missing value'')
      else Inr body)"

definition exampleDecodeHandlers :: "jsstring \<Rightarrow> (jsstring \<Rightarrow> jsstring + jsstring list) option" where
  "exampleDecodeHandlers contentType =
     (if contentType = js ''text/csv''
      then Some (\<lambda>body. if body = [] then Inl (js ''empty body'') else Inr (split 0x0A body))
      else None)"

definition exampleFindOne :: "jsval \<Rightarrow> rejection + box_doc option" where
  "exampleFindOne boxId = Inr (if boxId = JStr (b_id exampleBox) then Some exampleBox else None)"

text \<open>A store of ten thousand and one measurements of the example sensor in the window
  of the example request: ten thousand at one instant, then one at the to-date.\<close>

definition exampleInside :: measurement_doc where
  "exampleInside =
     \<lparr>m_sensor_id = js ''57000b8745fd40c8196ad050'', m_createdAt = 1478899321675,
      m_value = JStr (js ''1019.21'')\<rparr>"

definition exampleAtBound :: measurement_doc where
  "exampleAtBound =
     \<lparr>m_sensor_id = js ''57000b8745fd40c8196ad050'', m_createdAt = 1478900000000,
      m_value = JStr (js ''1019.30'')\<rparr>"

definition exampleFullStore :: "measurement_doc list" where
  "exampleFullStore = replicate 10000 exampleInside @ [exampleAtBound]"

text \<open>The example environment with ten thousand and one stored measurements of the
  example sensor, all inside the window of the example request, and the object a
  single-sensor row of them is after its transform.\<close>

definition exampleManyEnv :: env where
  "exampleManyEnv = exampleEnv\<lparr>e_measurements := replicate 10001 exampleInside\<rparr>"

definition exampleInsideISO :: jsobject where
  "exampleInsideISO =
     [js ''createdAt'' \<mapsto> JDate 1478899321675, js ''value'' \<mapsto> JStr (js ''1019.21''),
      js ''createdAt'' \<mapsto> JStr (js ''2016-11-11T21:22:01.675Z'')]"

text \<open>The CSV documents of the example request: the multi-box export and the single-sensor
  export of the one example measurement of the example sensor.\<close>

definition exampleCsvMulti :: csv_output where
  "exampleCsvMulti =
     \<lparr>csv_delimiter = js '','',
      csv_header = [js ''createdAt'', js ''value'', js ''lat'', js ''lng''],
      csv_records = [[JStr (js ''2016-11-11T21:22:01.675Z''), JStr (js ''1019.21''),
                      JNum 7.64568, JNum 51.962372]]\<rparr>"

definition exampleCsvSingle :: csv_output where
  "exampleCsvSingle =
     \<lparr>csv_delimiter = js '','',
      csv_header = [js ''createdAt'', js ''value''],
      csv_records = [[JStr (js ''2016-11-11T21:22:01.675Z''), JStr (js ''1019.21'')]]\<rparr>"

text \<open>The example environment when the one stored measurement of the example sensor has
  the measured value \<open>0\<close>, and the two CSV documents the example request then gets.\<close>

definition exampleZeroEnv :: env where
  "exampleZeroEnv =
     exampleEnv\<lparr>e_measurements :=
       [\<lparr>m_sensor_id = js ''57000b8745fd40c8196ad050'', m_createdAt = 1478899321675,
         m_value = JNum 0\<rparr>]\<rparr>"

definition exampleZeroCsvMulti :: csv_output where
  "exampleZeroCsvMulti =
     \<lparr>csv_delimiter = js '','',
      csv_header = [js ''createdAt'', js ''value'', js ''lat'', js ''lng''],
      csv_records = [[JStr (js ''2016-11-11T21:22:01.675Z''), JUndefined,
                      JNum 7.64568, JNum 51.962372]]\<rparr>"

definition exampleZeroCsvSingle :: csv_output where
  "exampleZeroCsvSingle =
     \<lparr>csv_delimiter = js '','',
      csv_header = [js ''createdAt'', js ''value''],
      csv_records = [[JStr (js ''2016-11-11T21:22:01.675Z''), JNum 0]]\<rparr>"

section \<open>Auxiliary predicates of the proofs\<close>

text \<open>A column is settled on a row when the loop of the transform leaves it alone or
  assigns it the value it already has.\<close>

definition settled :: "sidecar \<Rightarrow> row \<Rightarrow> jsstring \<Rightarrow> bool" where
  "settled sensors data c =
     (truthy (rowGet data c) \<or>
      (case map_of sensors (sensor_id data) of
         None \<Rightarrow> False
       | Some entry \<Rightarrow> r_props data c = Some (sensorGet entry c)))"

section \<open>Properties of the row transform\<close>

lemma js_sensor_id_neq_createdAt: "js ''sensor_id'' \<noteq> js ''createdAt''"
  by (simp add: js_def)

lemma fillColumns_sensor_id:
  "fillColumns sensors cols data = Inr data' \<Longrightarrow> sensor_id data' = sensor_id data"
proof (induction cols arbitrary: data)
  case Nil
  then show ?case by simp
next
  case (Cons col cols)
  show ?case
  proof (cases "truthy (rowGet data col)")
    case True
    with Cons show ?thesis by simp
  next
    case False
    with Cons.prems obtain entry where
      e: "map_of sensors (sensor_id data) = Some entry" and
      r: "fillColumns sensors cols
            (data\<lparr>r_props := (r_props data)(col \<mapsto> sensorGet entry col)\<rparr>) = Inr data'"
      by (auto split: option.splits)
    from Cons.IH [OF r] show ?thesis by simp
  qed
qed

lemma fillColumns_keeps_truthy:
  "fillColumns sensors cols data = Inr data' \<Longrightarrow> truthy (rowGet data c) \<Longrightarrow>
   rowGet data' c = rowGet data c"
proof (induction cols arbitrary: data)
  case Nil
  then show ?case by simp
next
  case (Cons col cols)
  show ?case
  proof (cases "truthy (rowGet data col)")
    case True
    with Cons show ?thesis by simp
  next
    case False
    with Cons.prems obtain entry where
      r: "fillColumns sensors cols
            (data\<lparr>r_props := (r_props data)(col \<mapsto> sensorGet entry col)\<rparr>) = Inr data'"
      by (auto split: option.splits)
    from False Cons.prems(2) have ne: "c \<noteq> col" by auto
    let ?d = "data\<lparr>r_props := (r_props data)(col \<mapsto> sensorGet entry col)\<rparr>"
    from ne have same: "rowGet ?d c = rowGet data c"
      by (simp add: rowGet_def getProp_def)
    with Cons.prems(2) have "truthy (rowGet ?d c)" by simp
    from Cons.IH [OF r this] same show ?thesis by simp
  qed
qed

lemma fillColumns_untouched:
  "fillColumns sensors cols data = Inr data' \<Longrightarrow> c \<notin> set cols \<Longrightarrow>
   rowGet data' c = rowGet data c"
proof (induction cols arbitrary: data)
  case Nil
  then show ?case by simp
next
  case (Cons col cols)
  from Cons.prems(2) have ne: "c \<noteq> col" and notin: "c \<notin> set cols" by auto
  show ?case
  proof (cases "truthy (rowGet data col)")
    case True
    with Cons notin show ?thesis by simp
  next
    case False
    with Cons.prems obtain entry where
      r: "fillColumns sensors cols
            (data\<lparr>r_props := (r_props data)(col \<mapsto> sensorGet entry col)\<rparr>) = Inr data'"
      by (auto split: option.splits)
    from ne have "rowGet (data\<lparr>r_props := (r_props data)(col \<mapsto> sensorGet entry col)\<rparr>) c
                  = rowGet data c"
      by (simp add: rowGet_def getProp_def)
    with Cons.IH [OF r notin] show ?thesis by simp
  qed
qed

lemma fillColumns_fills_falsy:
  "fillColumns sensors cols data = Inr data' \<Longrightarrow> c \<in> set cols \<Longrightarrow>
   \<not> truthy (rowGet data c) \<Longrightarrow>
   \<exists>entry. map_of sensors (sensor_id data) = Some entry \<and> rowGet data' c = sensorGet entry c"
proof (induction cols arbitrary: data)
  case Nil
  then show ?case by simp
next
  case (Cons col cols)
  have c_not_sid: "c \<noteq> js ''sensor_id''"
    using Cons.prems(3) by (auto simp: rowGet_def)
  show ?case
  proof (cases "truthy (rowGet data col)")
    case True
    with Cons.prems have r: "fillColumns sensors cols data = Inr data'" and "c \<noteq> col"
      by auto
    with Cons.prems have "c \<in> set cols" by simp
    from Cons.IH [OF r this Cons.prems(3)] show ?thesis .
  next
    case False
    with Cons.prems obtain entry where
      e: "map_of sensors (sensor_id data) = Some entry" and
      r: "fillColumns sensors cols
            (data\<lparr>r_props := (r_props data)(col \<mapsto> sensorGet entry col)\<rparr>) = Inr data'"
      by (auto split: option.splits)
    let ?d = "data\<lparr>r_props := (r_props data)(col \<mapsto> sensorGet entry col)\<rparr>"
    show ?thesis
    proof (cases "c = col")
      case ceq: True
      have val: "rowGet ?d c = sensorGet entry c"
        using ceq c_not_sid by (simp add: rowGet_def getProp_def)
      show ?thesis
      proof (cases "truthy (sensorGet entry c)")
        case True
        with val have "truthy (rowGet ?d c)" by simp
        from fillColumns_keeps_truthy [OF r this] val e show ?thesis by simp
      next
        case nt: False
        show ?thesis
        proof (cases "c \<in> set cols")
          case True
          from nt val have "\<not> truthy (rowGet ?d c)" by simp
          from Cons.IH [OF r True this] e show ?thesis by simp
        next
          case False
          from fillColumns_untouched [OF r False] val e show ?thesis by simp
        qed
      qed
    next
      case cne: False
      with Cons.prems(2) have cin: "c \<in> set cols" by simp
      from cne have "rowGet ?d c = rowGet data c"
        by (simp add: rowGet_def getProp_def)
      with Cons.prems(3) have "\<not> truthy (rowGet ?d c)" by simp
      from Cons.IH [OF r cin this] e show ?thesis by simp
    qed
  qed
qed

lemmas example_defs = GET_DATA_MULTI_DEFAULT_COLUMNS_def exampleSensor_def exampleBox_def
  exampleSidecar_def exampleToISO_def exampleRow_def exampleRowOut_def exampleRowOut'_def
  exampleRowISO_def exampleMeasurements_def exampleRequest_def exampleEnv_def exampleParams_def
  exampleParseTime_def

lemmas model_defs = transformer_def normalizeCreatedAt_def rowGet_def getProp_def sensorGet_def
  sidecarEntry_def numAt_def js_def

lemmas query_defs = queryMatches_def getData_qry_def getDataMulti_qry_def

lemma fillColumns_settles:
  "fillColumns sensors cols data = Inr data' \<Longrightarrow> \<forall>c \<in> S. settled sensors data c \<Longrightarrow>
   \<forall>c \<in> S \<union> set cols. settled sensors data' c"
proof (induction cols arbitrary: data S)
  case Nil
  then show ?case by simp
next
  case (Cons col cols)
  show ?case
  proof (cases "truthy (rowGet data col)")
    case True
    with Cons.prems have r: "fillColumns sensors cols data = Inr data'" by simp
    from True Cons.prems(2) have "\<forall>c \<in> insert col S. settled sensors data c"
      by (simp add: settled_def)
    from Cons.IH [OF r this] show ?thesis by simp
  next
    case False
    with Cons.prems obtain entry where
      e: "map_of sensors (sensor_id data) = Some entry" and
      r: "fillColumns sensors cols
            (data\<lparr>r_props := (r_props data)(col \<mapsto> sensorGet entry col)\<rparr>) = Inr data'"
      by (auto split: option.splits)
    let ?d = "data\<lparr>r_props := (r_props data)(col \<mapsto> sensorGet entry col)\<rparr>"
    have "\<forall>c \<in> insert col S. settled sensors ?d c"
    proof
      fix c assume c: "c \<in> insert col S"
      show "settled sensors ?d c"
      proof (cases "c = col")
        case True
        with e show ?thesis by (simp add: settled_def)
      next
        case False
        with c have "settled sensors data c" using Cons.prems(2) by simp
        with False e show ?thesis by (auto simp: settled_def rowGet_def getProp_def)
      qed
    qed
    from Cons.IH [OF r this] show ?thesis by simp
  qed
qed

lemma fillColumns_settled_id:
  "\<forall>c \<in> set cols. settled sensors data c \<Longrightarrow> fillColumns sensors cols data = Inr data"
proof (induction cols)
  case Nil
  then show ?case by simp
next
  case (Cons col cols)
  then have rest: "fillColumns sensors cols data = Inr data" by simp
  show ?case
  proof (cases "truthy (rowGet data col)")
    case True
    with rest show ?thesis by simp
  next
    case False
    with Cons.prems obtain entry where
      e: "map_of sensors (sensor_id data) = Some entry" and
      v: "r_props data col = Some (sensorGet entry col)"
      by (auto simp: settled_def split: option.splits)
    from v have "(r_props data)(col \<mapsto> sensorGet entry col) = r_props data"
      by (rule map_upd_triv)
    then have "data\<lparr>r_props := (r_props data)(col \<mapsto> sensorGet entry col)\<rparr> = data"
      by simp
    with False e rest show ?thesis by simp
  qed
qed

lemma fillColumns_idem:
  assumes "fillColumns sensors cols data = Inr data'"
  shows "fillColumns sensors cols data' = Inr data'"
proof -
  from fillColumns_settles [OF assms, of "{}"] have "\<forall>c \<in> set cols. settled sensors data' c"
    by simp
  then show ?thesis by (rule fillColumns_settled_id)
qed

section \<open>What the column fill keeps\<close>

text \<open>
  For every row the transform of the multi-box export processes successfully: a column
  other than \<^verbatim>\<open>createdAt\<close> whose value on the raw row is truthy keeps that value, and
  so does the normalized \<^verbatim>\<open>createdAt\<close> when it is truthy; a requested column that is
  absent from the raw row is filled from the Sidecar Entry of the row's sensor; and
  running the column fill again on the result changes nothing.
\<close>

lemma transformer_keeps_truthy_columns:
  assumes "transformer toISO sensors columns data = Inr data'"
  shows "(\<forall>c. c \<noteq> js ''createdAt'' \<and> truthy (rowGet data c) \<longrightarrow> rowGet data' c = rowGet data c)
    \<and> (\<forall>v. toISO (rowGet data (js ''createdAt'')) = Some v \<and> truthy v \<longrightarrow>
           rowGet data' (js ''createdAt'') = v)
    \<and> (\<forall>c \<in> set columns. c \<noteq> js ''createdAt'' \<and> c \<noteq> js ''sensor_id'' \<and> r_props data c = None \<longrightarrow>
           (\<exists>entry. map_of sensors (sensor_id data) = Some entry \<and>
                    rowGet data' c = sensorGet entry c))
    \<and> fillColumns sensors columns data' = Inr data'"
proof -
  from assms obtain v0 where
    iso: "toISO (rowGet data (js ''createdAt'')) = Some v0" and
    fill: "fillColumns sensors columns
             (data\<lparr>r_props := (r_props data)(js ''createdAt'' \<mapsto> v0)\<rparr>) = Inr data'"
    by (auto simp: transformer_def normalizeCreatedAt_def split: option.splits)
  let ?d0 = "data\<lparr>r_props := (r_props data)(js ''createdAt'' \<mapsto> v0)\<rparr>"
  have other: "rowGet ?d0 c = rowGet data c" if "c \<noteq> js ''createdAt''" for c
    using that by (simp add: rowGet_def getProp_def)
  have created: "rowGet ?d0 (js ''createdAt'') = v0"
    using js_sensor_id_neq_createdAt by (simp add: rowGet_def getProp_def)
  have sid: "sensor_id ?d0 = sensor_id data" by simp
  have 1: "\<forall>c. c \<noteq> js ''createdAt'' \<and> truthy (rowGet data c) \<longrightarrow> rowGet data' c = rowGet data c"
    using fillColumns_keeps_truthy [OF fill] other by auto
  have 2: "\<forall>v. toISO (rowGet data (js ''createdAt'')) = Some v \<and> truthy v \<longrightarrow>
             rowGet data' (js ''createdAt'') = v"
    using fillColumns_keeps_truthy [OF fill, of "js ''createdAt''"] created iso by auto
  have 3: "\<forall>c \<in> set columns. c \<noteq> js ''createdAt'' \<and> c \<noteq> js ''sensor_id'' \<and> r_props data c = None \<longrightarrow>
             (\<exists>entry. map_of sensors (sensor_id data) = Some entry \<and>
                      rowGet data' c = sensorGet entry c)"
  proof (intro ballI impI)
    fix c assume cin: "c \<in> set columns"
      and c: "c \<noteq> js ''createdAt'' \<and> c \<noteq> js ''sensor_id'' \<and> r_props data c = None"
    then have "\<not> truthy (rowGet data c)" by (simp add: rowGet_def getProp_def)
    with c other have "\<not> truthy (rowGet ?d0 c)" by simp
    from fillColumns_fills_falsy [OF fill cin this] sid
    show "\<exists>entry. map_of sensors (sensor_id data) = Some entry \<and> rowGet data' c = sensorGet entry c"
      by simp
  qed
  from 1 2 3 fillColumns_idem [OF fill] show ?thesis by blast
qed

section \<open>C1: a present column with a falsy value\<close>

text \<open>
  C1 holds that a column already present on a raw row is never overwritten by the Sidecar.
  The loop of the transform tests \<^verbatim>\<open>!data[col]\<close>, the truthiness of the value, where
  the presence of the column is meant. A row of the cursor that carries the measured value
  \<open>0\<close> has its \<^verbatim>\<open>value\<close> present; the test holds all the same, the Sidecar Entry has
  no \<^verbatim>\<open>value\<close>, and the row leaves the transform with \<^verbatim>\<open>value\<close> \<open>undefined\<close>
  (so does a row whose value is the empty string). The multi-box export of the example
  request writes the record with an empty value, while the single-sensor export of the very
  same stored measurement writes the \<open>0\<close>.
\<close>

theorem falsy_present_value_overwritten:
  "r_props (exampleRow (js ''57000b8745fd40c8196ad050'') (JNum 0)) (js ''value'') = Some (JNum 0)
   \<and> js ''value'' \<in> set GET_DATA_MULTI_DEFAULT_COLUMNS
   \<and> buildSidecar (js ''Luftdruck'') [exampleBox] [] = Inr exampleSidecar
   \<and> transformer exampleToISO exampleSidecar GET_DATA_MULTI_DEFAULT_COLUMNS
       (exampleRow (js ''57000b8745fd40c8196ad050'') (JNum 0))
     = Inr (exampleRowOut' (JNum 0) JUndefined)
   \<and> rowGet (exampleRowOut' (JNum 0) JUndefined) (js ''value'') = JUndefined
   \<and> transformer exampleToISO exampleSidecar GET_DATA_MULTI_DEFAULT_COLUMNS
       (exampleRow (js ''57000b8745fd40c8196ad050'') (JStr []))
     = Inr (exampleRowOut' (JStr []) JUndefined)
   \<and> snd (getDataMulti exampleZeroEnv exampleRequest) = Inr exampleZeroCsvMulti
   \<and> snd (getData exampleZeroEnv exampleRequest) = Inr (CsvOutput exampleZeroCsvSingle)"
proof -
  let ?zero = "exampleRow (js ''57000b8745fd40c8196ad050'') (JNum 0)"
  let ?out = "exampleRowOut' (JNum 0) JUndefined"
  let ?stored = "\<lparr>m_sensor_id = js ''57000b8745fd40c8196ad050'', m_createdAt = 1478899321675,
                   m_value = JNum 0\<rparr>"
  let ?single = "[js ''createdAt'' \<mapsto> JDate 1478899321675, js ''value'' \<mapsto> JNum 0,
                  js ''createdAt'' \<mapsto> JStr (js ''2016-11-11T21:22:01.675Z'')]"
  have 1: "r_props ?zero (js ''value'') = Some (JNum 0)
      \<and> js ''value'' \<in> set GET_DATA_MULTI_DEFAULT_COLUMNS
      \<and> buildSidecar (js ''Luftdruck'') [exampleBox] [] = Inr exampleSidecar
      \<and> transformer exampleToISO exampleSidecar GET_DATA_MULTI_DEFAULT_COLUMNS ?zero = Inr ?out
      \<and> rowGet ?out (js ''value'') = JUndefined"
    by (simp add: example_defs model_defs)
  have 2: "transformer exampleToISO exampleSidecar GET_DATA_MULTI_DEFAULT_COLUMNS
       (exampleRow (js ''57000b8745fd40c8196ad050'') (JStr []))
     = Inr (exampleRowOut' (JStr []) JUndefined)"
    by (simp add: example_defs model_defs)
  have e: "e_measurements exampleZeroEnv = [?stored]"
    "e_parseTimestampToISO exampleZeroEnv = exampleToISO"
    "e_dateToISO exampleZeroEnv = exampleToISO"
    "e_boxFind exampleZeroEnv (mp_queryParams exampleParams) = Inr [exampleBox]"
    by (simp_all add: exampleZeroEnv_def exampleEnv_def)
  have p: "getDataMulti_params exampleZeroEnv exampleRequest = Inr exampleParams"
    by (simp add: getDataMulti_params_def getDataMulti_timeWindow_def timeWindow_def
          parseTimeParameter_def validateTimeParameters_def DAYS_15_def phenomenonParameter_def
          boxSelection_def boxIdGiven_def bboxGiven_def exposureParameter_def
          columnsParameter_def trim_def isWhiteSpace_def comma_def
          GET_DATA_MULTI_DEFAULT_COLUMNS_def exampleZeroEnv_def exampleEnv_def
          exampleRequest_def exampleParams_def js_def)
  have s: "buildSidecar (mp_phenomenon exampleParams) [exampleBox] [] = Inr exampleSidecar"
    by (simp add: example_defs model_defs)
  have f: "measurementFind
      (getDataMulti_qry exampleSidecar (mp_fromDate exampleParams) (mp_toDate exampleParams))
      (e_measurements exampleZeroEnv) = [?stored]"
    by (simp add: e example_defs model_defs measurementFind_def query_defs)
  have r: "projectDataMulti ?stored = ?zero"
    by (simp add: projectDataMulti_def exampleRow_def)
  have t: "transformer exampleToISO exampleSidecar (mp_columns exampleParams) ?zero = Inr ?out"
    using 1 by (simp add: exampleParams_def)
  have c: "csvstringify rowGet (mp_columns exampleParams) (req_delimiter exampleRequest) [?out]
      = exampleZeroCsvMulti"
    by (simp add: csvstringify_def exampleZeroCsvMulti_def example_defs rowGet_def getProp_def js_def)
  from p e s f r t c
  have 3: "snd (getDataMulti exampleZeroEnv exampleRequest) = Inr exampleZeroCsvMulti"
    by (simp add: getDataMulti_def getDataMulti_stream_def)
  have w: "getData_timeWindow exampleZeroEnv exampleRequest = Inr (1478727200000, 1478900000000)"
    by (simp add: getData_timeWindow_def timeWindow_def parseTimeParameter_def
          validateTimeParameters_def HOURS_48_def exampleZeroEnv_def exampleEnv_def
          exampleRequest_def)
  have fs: "measurementFind
      (getData_qry (req_sensorId exampleRequest) 1478727200000 1478900000000)
      (e_measurements exampleZeroEnv) = [?stored]"
    by (simp add: e exampleRequest_def measurementFind_def query_defs queryLimit_def)
  have ct: "csvTransformer exampleToISO (projectData ?stored) = Inr ?single"
    by (simp add: csvTransformer_def projectData_def exampleToISO_def getProp_def js_def)
  have cs: "csvstringify getProp [js ''createdAt'', js ''value''] (req_delimiter exampleRequest)
      [?single] = exampleZeroCsvSingle"
    by (simp add: csvstringify_def exampleZeroCsvSingle_def exampleRequest_def getProp_def js_def)
  from w e fs ct cs
  have 4: "snd (getData exampleZeroEnv exampleRequest) = Inr (CsvOutput exampleZeroCsvSingle)"
    by (simp add: getData_def exampleRequest_def)
  from 1 2 3 4 show ?thesis by simp
qed

section \<open>Rows of the cursor and failures of the transform\<close>

lemma sidecar_key_has_entry:
  "k \<in> set (map fst sensors) \<Longrightarrow> \<exists>entry. map_of sensors k = Some entry"
  by (cases "map_of sensors k") (auto simp: map_of_eq_None_iff)

lemma measurementFind_subset:
  "m \<in> set (measurementFind q ms) \<Longrightarrow> m \<in> set ms \<and> queryMatches q m"
  by (auto simp: measurementFind_def split: option.splits dest: in_set_takeD)

lemma fillColumns_total:
  "map_of sensors (sensor_id data) = Some entry \<Longrightarrow> \<exists>data'. fillColumns sensors cols data = Inr data'"
proof (induction cols arbitrary: data)
  case Nil
  show ?case by simp
next
  case (Cons col cols)
  show ?case
  proof (cases "truthy (rowGet data col)")
    case True
    with Cons.IH [OF Cons.prems] show ?thesis by simp
  next
    case False
    have "map_of sensors (sensor_id (data\<lparr>r_props := (r_props data)(col \<mapsto> sensorGet entry col)\<rparr>))
          = Some entry"
      using Cons.prems by simp
    from Cons.IH [OF this] False Cons.prems show ?thesis by simp
  qed
qed




section \<open>C2: rows, Sidecar Entries and the missing-entry failure\<close>



lemmas columns_defs = columnsParameter_def trim_def isWhiteSpace_def comma_def
  GET_DATA_MULTI_ALLOWED_COLUMNS_def GET_DATA_MULTI_DEFAULT_COLUMNS_def js_def

section \<open>The checks of getDataMulti before the storage read\<close>

lemmas params_defs = getDataMulti_params_def getDataMulti_timeWindow_def timeWindow_def
  parseTimeParameter_def validateTimeParameters_def DAYS_15_def phenomenonParameter_def
  boxSelection_def boxIdGiven_def bboxGiven_def exposureParameter_def

lemma getDataMulti_rejects:
  "getDataMulti_params env req = Inl e \<Longrightarrow> getDataMulti env req = ([], Inl e)"
  by (simp add: getDataMulti_def)

lemma getDataMulti_params_InrD:
  assumes "getDataMulti_params env req = Inr pr"
  shows "getDataMulti_timeWindow env req = Inr (mp_fromDate pr, mp_toDate pr)"
    and "columnsParameter (req_columns req) = Inr (mp_columns pr)"
    and "phenomenonParameter (req_phenomenon req) = Inr (mp_phenomenon pr)"
    and "boxSelection (req_boxId req) (req_bbox req)
           = Inr (q_id_in (mp_queryParams pr), q_geoWithin (mp_queryParams pr))"
    and "exposureParameter (req_exposure req) = Inr (q_exposure (mp_queryParams pr))"
    and "q_sensors_title (mp_queryParams pr) = mp_phenomenon pr"
  using assms by (auto simp: getDataMulti_params_def split: sum.splits prod.splits)

lemma getDataMulti_params_window_fails:
  "getDataMulti_timeWindow env req = Inl e \<Longrightarrow> getDataMulti_params env req = Inl e"
  by (simp add: getDataMulti_params_def)

lemma getDataMulti_params_columns_fail:
  "getDataMulti_timeWindow env req = Inr w \<Longrightarrow> columnsParameter (req_columns req) = Inl e \<Longrightarrow>
   getDataMulti_params env req = Inl e"
  by (simp add: getDataMulti_params_def split: prod.splits)

lemma getDataMulti_params_selection_fails:
  "getDataMulti_timeWindow env req = Inr w \<Longrightarrow> columnsParameter (req_columns req) = Inr cs \<Longrightarrow>
   phenomenonParameter (req_phenomenon req) = Inr ph \<Longrightarrow>
   boxSelection (req_boxId req) (req_bbox req) = Inl e \<Longrightarrow>
   getDataMulti_params env req = Inl e"
  by (simp add: getDataMulti_params_def split: prod.splits)

lemma columnsParameter_illegal:
  "trim p \<noteq> [] \<Longrightarrow> c \<in> set (split comma p) \<Longrightarrow> c \<notin> set GET_DATA_MULTI_ALLOWED_COLUMNS \<Longrightarrow>
   columnsParameter (Some p) = Inl (UnprocessableEntityError (js ''illegal columns parameter''))"
  by (auto simp: columnsParameter_def list_ex_iff Let_def)

lemma columnsParameter_allowed:
  "columnsParameter cp = Inr cs \<Longrightarrow> set cs \<subseteq> set GET_DATA_MULTI_ALLOWED_COLUMNS"
  by (auto simp: columnsParameter_def list_ex_iff Let_def GET_DATA_MULTI_DEFAULT_COLUMNS_def
        GET_DATA_MULTI_ALLOWED_COLUMNS_def split: option.splits if_splits)

lemma columnsParameter_default:
  "cp = None \<or> (\<exists>p. cp = Some p \<and> trim p = []) \<Longrightarrow>
   columnsParameter cp = Inr GET_DATA_MULTI_DEFAULT_COLUMNS"
  by (auto simp: columnsParameter_def)

lemma example_window:
  "getDataMulti_timeWindow exampleEnv (exampleRequest\<lparr>req_columns := cp, req_boxId := bi, req_bbox := bb\<rparr>)
     = Inr (1477604000000, 1478900000000)"
  by (simp add: params_defs exampleEnv_def exampleRequest_def)

lemma example_phenomenon:
  "phenomenonParameter (req_phenomenon (exampleRequest\<lparr>req_columns := cp, req_boxId := bi, req_bbox := bb\<rparr>))
     = Inr (js ''Luftdruck'')"
  by (simp add: phenomenonParameter_def exampleRequest_def trim_def isWhiteSpace_def js_def)

lemma example_params:
  "cp = None \<or> cp = Some (js '' '') \<Longrightarrow>
   getDataMulti_params exampleEnv (exampleRequest\<lparr>req_columns := cp\<rparr>) = Inr exampleParams"
  by (auto simp: params_defs columns_defs exampleEnv_def exampleRequest_def exampleParams_def
        Let_def)

section \<open>C3: the column parameter\<close>

text \<open>
  C3, as amended. For every multi-box export request whose \<^verbatim>\<open>columns\<close> parameter is not
  blank and contains a column outside the allow-list, the request is rejected with no
  event at all (no storage read, no header, no stream), and the error is the
  \<open>illegal columns parameter\<close> validation error whenever the time window resolves (a bad
  time window is reported first). When the parameter is not given, or is blank, the column
  set is the default \<^verbatim>\<open>createdAt, value, lat, lng\<close>. Every column set that reaches
  the storage read lies within the allow-list.
\<close>

theorem illegal_columns_rejected:
  "(req_columns req = Some p \<and> trim p \<noteq> [] \<and>
      (\<exists>c \<in> set (split comma p). c \<notin> set GET_DATA_MULTI_ALLOWED_COLUMNS) \<longrightarrow>
      (\<exists>e. getDataMulti env req = ([], Inl e)) \<and>
      (\<forall>w. getDataMulti_timeWindow env req = Inr w \<longrightarrow>
           getDataMulti env req
             = ([], Inl (UnprocessableEntityError (js ''illegal columns parameter'')))))
   \<and> (req_columns req = None \<or> (\<exists>q. req_columns req = Some q \<and> trim q = []) \<longrightarrow>
        columnsParameter (req_columns req) = Inr GET_DATA_MULTI_DEFAULT_COLUMNS \<and>
        (\<forall>pr. getDataMulti_params env req = Inr pr \<longrightarrow>
              mp_columns pr = GET_DATA_MULTI_DEFAULT_COLUMNS))
   \<and> (\<forall>pr. getDataMulti_params env req = Inr pr \<longrightarrow>
         set (mp_columns pr) \<subseteq> set GET_DATA_MULTI_ALLOWED_COLUMNS)"
proof (intro conjI impI allI)
  assume a: "req_columns req = Some p \<and> trim p \<noteq> [] \<and>
      (\<exists>c \<in> set (split comma p). c \<notin> set GET_DATA_MULTI_ALLOWED_COLUMNS)"
  then have bad: "columnsParameter (req_columns req)
      = Inl (UnprocessableEntityError (js ''illegal columns parameter''))"
    using columnsParameter_illegal by auto
  show "\<exists>e. getDataMulti env req = ([], Inl e)"
  proof (cases "getDataMulti_timeWindow env req")
    case (Inl e)
    from getDataMulti_rejects [OF getDataMulti_params_window_fails [OF Inl]] show ?thesis ..
  next
    case (Inr w)
    from getDataMulti_rejects [OF getDataMulti_params_columns_fail [OF Inr bad]] show ?thesis ..
  qed
  fix w assume "getDataMulti_timeWindow env req = Inr w"
  from getDataMulti_rejects [OF getDataMulti_params_columns_fail [OF this bad]]
  show "getDataMulti env req = ([], Inl (UnprocessableEntityError (js ''illegal columns parameter'')))" .
next
  assume a: "req_columns req = None \<or> (\<exists>q. req_columns req = Some q \<and> trim q = [])"
  then show d: "columnsParameter (req_columns req) = Inr GET_DATA_MULTI_DEFAULT_COLUMNS"
    by (rule columnsParameter_default)
  fix pr assume "getDataMulti_params env req = Inr pr"
  from getDataMulti_params_InrD(2) [OF this] d
  show "mp_columns pr = GET_DATA_MULTI_DEFAULT_COLUMNS" by simp
next
  fix pr assume "getDataMulti_params env req = Inr pr"
  from getDataMulti_params_InrD(2) [OF this]
  show "set (mp_columns pr) \<subseteq> set GET_DATA_MULTI_ALLOWED_COLUMNS"
    by (rule columnsParameter_allowed)
qed


theorem illegal_columns_rejected_witness:
  "getDataMulti exampleEnv (exampleRequest\<lparr>req_columns := Some (js ''createdAt,foo'')\<rparr>)
     = ([], Inl (UnprocessableEntityError (js ''illegal columns parameter'')))
   \<and> columnsParameter (req_columns exampleRequest) = Inr GET_DATA_MULTI_DEFAULT_COLUMNS
   \<and> getDataMulti_params exampleEnv exampleRequest = Inr exampleParams
   \<and> mp_columns exampleParams = GET_DATA_MULTI_DEFAULT_COLUMNS
   \<and> set (mp_columns exampleParams) \<subseteq> set GET_DATA_MULTI_ALLOWED_COLUMNS"
proof -
  let ?bad = "exampleRequest\<lparr>req_columns := Some (js ''createdAt,foo'')\<rparr>"
  have p: "req_columns ?bad = Some (js ''createdAt,foo'') \<and> trim (js ''createdAt,foo'') \<noteq> []
      \<and> (\<exists>c \<in> set (split comma (js ''createdAt,foo'')). c \<notin> set GET_DATA_MULTI_ALLOWED_COLUMNS)"
    by (simp add: columns_defs)
  have w: "getDataMulti_timeWindow exampleEnv ?bad = Inr (1477604000000, 1478900000000)"
    using example_window [where cp = "Some (js ''createdAt,foo'')" and bi = "req_boxId exampleRequest"
        and bb = "req_bbox exampleRequest"]
    by simp
  from illegal_columns_rejected [of ?bad "js ''createdAt,foo''" exampleEnv] p w
  have 1: "getDataMulti exampleEnv ?bad
      = ([], Inl (UnprocessableEntityError (js ''illegal columns parameter'')))"
    by blast
  have n: "req_columns exampleRequest = None" by (simp add: exampleRequest_def)
  have ok: "getDataMulti_params exampleEnv exampleRequest = Inr exampleParams"
    using example_params [of None] by (simp add: exampleRequest_def)
  from illegal_columns_rejected [of exampleRequest _ exampleEnv] n ok
  have 2: "columnsParameter (req_columns exampleRequest) = Inr GET_DATA_MULTI_DEFAULT_COLUMNS
      \<and> mp_columns exampleParams = GET_DATA_MULTI_DEFAULT_COLUMNS
      \<and> set (mp_columns exampleParams) \<subseteq> set GET_DATA_MULTI_ALLOWED_COLUMNS"
    by blast
  from 1 2 ok show ?thesis by blast
qed

text \<open>
  C3 as stated fails on a blank parameter: \<^verbatim>\<open>columns=%20\<close> consists of the one
  column \<open>' '\<close>, which is not in the allow-list, yet the request is not rejected: the
  guard \<^verbatim>\<open>columnsParam.trim() !== ''\<close> treats it as not given, and the export runs with
  the default columns.
\<close>

theorem blank_columns_not_rejected:
  "js '' '' \<in> set (split comma (js '' ''))
   \<and> js '' '' \<notin> set GET_DATA_MULTI_ALLOWED_COLUMNS
   \<and> getDataMulti_params exampleEnv (exampleRequest\<lparr>req_columns := Some (js '' '')\<rparr>)
       = Inr exampleParams
   \<and> mp_columns exampleParams = GET_DATA_MULTI_DEFAULT_COLUMNS
   \<and> fst (getDataMulti exampleEnv (exampleRequest\<lparr>req_columns := Some (js '' '')\<rparr>))
       = [BoxFind (mp_queryParams exampleParams),
          ResHeader (js ''Content-Type'') (js ''text/csv''),
          MeasurementFind (getDataMulti_qry exampleSidecar 1477604000000 1478900000000)]"
proof -
  have 1: "js '' '' \<in> set (split comma (js '' ''))
      \<and> js '' '' \<notin> set GET_DATA_MULTI_ALLOWED_COLUMNS"
    by (simp add: columns_defs)
  have 2: "getDataMulti_params exampleEnv (exampleRequest\<lparr>req_columns := Some (js '' '')\<rparr>)
      = Inr exampleParams"
    by (rule example_params) simp
  have 3: "buildSidecar (js ''Luftdruck'') [exampleBox] [] = Inr exampleSidecar"
    by (simp add: example_defs model_defs)
  have 4: "mp_columns exampleParams = GET_DATA_MULTI_DEFAULT_COLUMNS
      \<and> mp_phenomenon exampleParams = js ''Luftdruck''
      \<and> mp_fromDate exampleParams = 1477604000000 \<and> mp_toDate exampleParams = 1478900000000"
    by (simp add: exampleParams_def)
  have 5: "e_boxFind exampleEnv (mp_queryParams exampleParams) = Inr [exampleBox]"
    by (simp add: exampleEnv_def)
  from 1 2 3 4 5 show ?thesis by (simp add: getDataMulti_def)
qed

lemma getDataMulti_params_selection_Inl:
  assumes "boxSelection (req_boxId req) (req_bbox req) = Inl e"
  shows "\<exists>e'. getDataMulti_params env req = Inl e'"
proof (cases "getDataMulti_params env req")
  case (Inl e')
  then show ?thesis by simp
next
  case (Inr pr)
  from getDataMulti_params_InrD(4) [OF this] assms show ?thesis by simp
qed

section \<open>C4: box ids or bounding box, not both, not neither\<close>

text \<open>
  C4. For every multi-box export request, exactly one of the box-id list and the bounding
  box must be present (\<^verbatim>\<open>req.boxId\<close> and \<^verbatim>\<open>req.bbox\<close> truthy): a request with both
  is rejected and a request with neither is rejected, each with no event at all, so before
  any storage read; the error is the one of this check whenever the checks before it (time
  window, columns, phenomenon) pass. Every request that passes validation has exactly one
  of the two.
\<close>

theorem box_selection_exclusive:
  "(boxIdGiven (req_boxId req) \<and> bboxGiven (req_bbox req) \<longrightarrow>
      (\<exists>e. getDataMulti env req = ([], Inl e)) \<and>
      (\<forall>w cs ph. getDataMulti_timeWindow env req = Inr w \<and>
                 columnsParameter (req_columns req) = Inr cs \<and>
                 phenomenonParameter (req_phenomenon req) = Inr ph \<longrightarrow>
         getDataMulti env req
           = ([], Inl (BadRequestError (js ''please specify only boxId or bbox'')))))
   \<and> (\<not> boxIdGiven (req_boxId req) \<and> \<not> bboxGiven (req_bbox req) \<longrightarrow>
      (\<exists>e. getDataMulti env req = ([], Inl e)) \<and>
      (\<forall>w cs ph. getDataMulti_timeWindow env req = Inr w \<and>
                 columnsParameter (req_columns req) = Inr cs \<and>
                 phenomenonParameter (req_phenomenon req) = Inr ph \<longrightarrow>
         getDataMulti env req
           = ([], Inl (BadRequestError (js ''please specify either boxId or bbox'')))))
   \<and> (\<forall>pr. getDataMulti_params env req = Inr pr \<longrightarrow>
         boxIdGiven (req_boxId req) \<noteq> bboxGiven (req_bbox req))"
proof (intro conjI impI allI)
  assume both: "boxIdGiven (req_boxId req) \<and> bboxGiven (req_bbox req)"
  then have sel: "boxSelection (req_boxId req) (req_bbox req)
      = Inl (BadRequestError (js ''please specify only boxId or bbox''))"
    by (simp add: boxSelection_def)
  from getDataMulti_params_selection_Inl [OF sel] obtain e'
    where "getDataMulti_params env req = Inl e'" ..
  from getDataMulti_rejects [OF this] show "\<exists>e. getDataMulti env req = ([], Inl e)" ..
  fix w cs ph
  assume "getDataMulti_timeWindow env req = Inr w \<and>
          columnsParameter (req_columns req) = Inr cs \<and>
          phenomenonParameter (req_phenomenon req) = Inr ph"
  then have "getDataMulti_params env req
      = Inl (BadRequestError (js ''please specify only boxId or bbox''))"
    using sel getDataMulti_params_selection_fails by simp
  then show "getDataMulti env req
      = ([], Inl (BadRequestError (js ''please specify only boxId or bbox'')))"
    by (rule getDataMulti_rejects)
next
  assume neither: "\<not> boxIdGiven (req_boxId req) \<and> \<not> bboxGiven (req_bbox req)"
  then have sel: "boxSelection (req_boxId req) (req_bbox req)
      = Inl (BadRequestError (js ''please specify either boxId or bbox''))"
    by (simp add: boxSelection_def)
  from getDataMulti_params_selection_Inl [OF sel] obtain e'
    where "getDataMulti_params env req = Inl e'" ..
  from getDataMulti_rejects [OF this] show "\<exists>e. getDataMulti env req = ([], Inl e)" ..
  fix w cs ph
  assume "getDataMulti_timeWindow env req = Inr w \<and>
          columnsParameter (req_columns req) = Inr cs \<and>
          phenomenonParameter (req_phenomenon req) = Inr ph"
  then have "getDataMulti_params env req
      = Inl (BadRequestError (js ''please specify either boxId or bbox''))"
    using sel getDataMulti_params_selection_fails by simp
  then show "getDataMulti env req
      = ([], Inl (BadRequestError (js ''please specify either boxId or bbox'')))"
    by (rule getDataMulti_rejects)
next
  fix pr assume "getDataMulti_params env req = Inr pr"
  from getDataMulti_params_InrD(4) [OF this]
  show "boxIdGiven (req_boxId req) \<noteq> bboxGiven (req_bbox req)"
    by (auto simp: boxSelection_def split: if_splits)
qed

theorem box_selection_exclusive_witness:
  "getDataMulti exampleEnv (exampleRequest\<lparr>req_bbox := Some [7, 51, 8, 52]\<rparr>)
     = ([], Inl (BadRequestError (js ''please specify only boxId or bbox'')))
   \<and> getDataMulti exampleEnv (exampleRequest\<lparr>req_boxId := None\<rparr>)
     = ([], Inl (BadRequestError (js ''please specify either boxId or bbox'')))
   \<and> getDataMulti_params exampleEnv exampleRequest = Inr exampleParams
   \<and> boxIdGiven (req_boxId exampleRequest) \<and> \<not> bboxGiven (req_bbox exampleRequest)"
proof -
  let ?both = "exampleRequest\<lparr>req_bbox := Some [7, 51, 8, 52]\<rparr>"
  let ?neither = "exampleRequest\<lparr>req_boxId := None\<rparr>"
  have given: "boxIdGiven (req_boxId ?both) \<and> bboxGiven (req_bbox ?both)"
    "\<not> boxIdGiven (req_boxId ?neither) \<and> \<not> bboxGiven (req_bbox ?neither)"
    "boxIdGiven (req_boxId exampleRequest) \<and> \<not> bboxGiven (req_bbox exampleRequest)"
    by (simp_all add: boxIdGiven_def bboxGiven_def exampleRequest_def js_def)
  have stages: "getDataMulti_timeWindow exampleEnv ?both = Inr (1477604000000, 1478900000000)
      \<and> columnsParameter (req_columns ?both) = Inr GET_DATA_MULTI_DEFAULT_COLUMNS
      \<and> phenomenonParameter (req_phenomenon ?both) = Inr (js ''Luftdruck'')"
    "getDataMulti_timeWindow exampleEnv ?neither = Inr (1477604000000, 1478900000000)
      \<and> columnsParameter (req_columns ?neither) = Inr GET_DATA_MULTI_DEFAULT_COLUMNS
      \<and> phenomenonParameter (req_phenomenon ?neither) = Inr (js ''Luftdruck'')"
    using example_window [where cp = None and bi = "req_boxId exampleRequest" and bb = "Some [7, 51, 8, 52]"]
      example_window [where cp = None and bi = None and bb = None]
      example_phenomenon [where cp = None and bi = "req_boxId exampleRequest"
        and bb = "Some [7, 51, 8, 52]"]
      example_phenomenon [where cp = None and bi = None and bb = None]
    by (simp_all add: exampleRequest_def columnsParameter_def)
  from box_selection_exclusive [of ?both exampleEnv] given(1) stages(1)
  have 1: "getDataMulti exampleEnv ?both
      = ([], Inl (BadRequestError (js ''please specify only boxId or bbox'')))"
    by blast
  from box_selection_exclusive [of ?neither exampleEnv] given(2) stages(2)
  have 2: "getDataMulti exampleEnv ?neither
      = ([], Inl (BadRequestError (js ''please specify either boxId or bbox'')))"
    by blast
  have ok: "getDataMulti_params exampleEnv exampleRequest = Inr exampleParams"
    using example_params [of None] by (simp add: exampleRequest_def)
  from 1 2 ok given(3) show ?thesis by simp
qed

section \<open>Time windows and the queries that carry them\<close>

lemmas window_defs = getData_timeWindow_def getDataMulti_timeWindow_def timeWindow_def
  parseTimeParameter_def validateTimeParameters_def HOURS_48_def DAYS_15_def

lemma getData_headers_no_find: "MeasurementFind q \<notin> set (getData_headers req f)"
  by (simp add: getData_headers_def split: format.splits)

lemma getData_rejects:
  "getData_timeWindow env req = Inl e \<Longrightarrow> getData env req = ([], Inl e)"
  by (simp add: getData_def)

lemma getData_find_event:
  assumes "MeasurementFind q \<in> set (fst (getData env req))"
  shows "\<exists>fromDate toDate. getData_timeWindow env req = Inr (fromDate, toDate) \<and>
           q = getData_qry (req_sensorId req) fromDate toDate"
  using assms getData_headers_no_find
  by (auto simp: getData_def Let_def split: sum.splits prod.splits option.splits)

lemma getDataMulti_find_event:
  assumes "MeasurementFind q \<in> set (fst (getDataMulti env req))"
  shows "\<exists>pr sensors. getDataMulti_params env req = Inr pr \<and>
           q = getDataMulti_qry sensors (mp_fromDate pr) (mp_toDate pr)"
  using assms
  by (auto simp: getDataMulti_def split: sum.splits)

section \<open>C5: an inverted time window\<close>

text \<open>
  C5. For every pair of parseable from/to bounds supplied to an export, single-sensor or
  multi-box, the resolution of the time window fails with an error whenever \<open>from\<close> is not
  strictly before \<open>to\<close>, and the handler then reports that error with no event at all, so
  before any query executes. The window is never clamped or corrected: when the resolution
  succeeds the window is exactly the parsed pair, and every measurement query either
  export runs has exactly the parsed bounds. (The parsing and the validation of the bounds
  are the two functions modelled from the specification.)
\<close>

theorem inverted_time_window_rejected:
  assumes "req_from_date req = Some f" and "req_to_date req = Some t"
    and "e_parseTime env f = Some a" and "e_parseTime env t = Some b"
  shows "(\<not> a < b \<longrightarrow>
            getData_timeWindow env req = Inl TimeError \<and>
            getDataMulti_timeWindow env req = Inl TimeError \<and>
            getData env req = ([], Inl TimeError) \<and>
            getDataMulti env req = ([], Inl TimeError))
       \<and> (a < b \<longrightarrow>
            getData_timeWindow env req = Inr (a, b) \<and>
            getDataMulti_timeWindow env req = Inr (a, b))
       \<and> (\<forall>q. MeasurementFind q \<in> set (fst (getData env req)) \<longrightarrow>
              a < b \<and> q = getData_qry (req_sensorId req) a b)
       \<and> (\<forall>q. MeasurementFind q \<in> set (fst (getDataMulti env req)) \<longrightarrow>
              a < b \<and> q_createdAt q = [Gt a, Lt b])"
proof -
  have inv: "getData_timeWindow env req = Inl TimeError \<and>
             getDataMulti_timeWindow env req = Inl TimeError" if "\<not> a < b"
    using that assms by (simp add: window_defs)
  have ok: "getData_timeWindow env req = Inr (a, b) \<and>
            getDataMulti_timeWindow env req = Inr (a, b)" if "a < b"
    using that assms by (simp add: window_defs)
  have 1: "\<not> a < b \<longrightarrow>
            getData_timeWindow env req = Inl TimeError \<and>
            getDataMulti_timeWindow env req = Inl TimeError \<and>
            getData env req = ([], Inl TimeError) \<and>
            getDataMulti env req = ([], Inl TimeError)"
    using inv getData_rejects getDataMulti_rejects getDataMulti_params_window_fails by simp
  have 3: "a < b \<and> q = getData_qry (req_sensorId req) a b"
    if "MeasurementFind q \<in> set (fst (getData env req))" for q
  proof -
    from getData_find_event [OF that] obtain fromDate toDate where
      w: "getData_timeWindow env req = Inr (fromDate, toDate)" and
      q: "q = getData_qry (req_sensorId req) fromDate toDate" by blast
    show ?thesis
    proof (cases "a < b")
      case True
      with ok w q show ?thesis by simp
    next
      case False
      with inv w show ?thesis by simp
    qed
  qed
  have 4: "a < b \<and> q_createdAt q = [Gt a, Lt b]"
    if "MeasurementFind q \<in> set (fst (getDataMulti env req))" for q
  proof -
    from getDataMulti_find_event [OF that] obtain pr sensors where
      p: "getDataMulti_params env req = Inr pr" and
      q: "q = getDataMulti_qry sensors (mp_fromDate pr) (mp_toDate pr)" by blast
    note w = getDataMulti_params_InrD(1) [OF p]
    show ?thesis
    proof (cases "a < b")
      case True
      with ok w q show ?thesis by (simp add: getDataMulti_qry_def)
    next
      case False
      with inv w show ?thesis by simp
    qed
  qed
  from 1 ok 3 4 show ?thesis by blast
qed

theorem inverted_time_window_rejected_witness:
  "getData exampleEnv
     (exampleRequest\<lparr>req_to_date := Some (js ''2016-11-10T00:00:00.000Z''),
                     req_from_date := Some (js ''2016-11-11T21:22:01.675Z'')\<rparr>)
     = ([], Inl TimeError)
   \<and> getDataMulti exampleEnv
     (exampleRequest\<lparr>req_to_date := Some (js ''2016-11-10T00:00:00.000Z''),
                     req_from_date := Some (js ''2016-11-11T21:22:01.675Z'')\<rparr>)
     = ([], Inl TimeError)
   \<and> getData exampleEnv
     (exampleRequest\<lparr>req_to_date := Some (js ''2016-11-10T00:00:00.000Z''),
                     req_from_date := Some (js ''2016-11-10T00:00:00.000Z'')\<rparr>)
     = ([], Inl TimeError)
   \<and> getDataMulti_timeWindow exampleEnv
     (exampleRequest\<lparr>req_to_date := Some (js ''2016-11-11T21:22:01.675Z''),
                     req_from_date := Some (js ''2016-11-10T00:00:00.000Z'')\<rparr>)
     = Inr (1478736000000, 1478899321675)"
proof -
  let ?early = "js ''2016-11-10T00:00:00.000Z''"
  let ?late = "js ''2016-11-11T21:22:01.675Z''"
  have parse: "e_parseTime exampleEnv ?early = Some 1478736000000"
    "e_parseTime exampleEnv ?late = Some 1478899321675"
    by (simp_all add: exampleEnv_def exampleParseTime_def js_def)
  let ?inverted = "exampleRequest\<lparr>req_to_date := Some ?early, req_from_date := Some ?late\<rparr>"
  let ?empty = "exampleRequest\<lparr>req_to_date := Some ?early, req_from_date := Some ?early\<rparr>"
  let ?good = "exampleRequest\<lparr>req_to_date := Some ?late, req_from_date := Some ?early\<rparr>"
  have 1: "getData exampleEnv ?inverted = ([], Inl TimeError)
      \<and> getDataMulti exampleEnv ?inverted = ([], Inl TimeError)"
    using inverted_time_window_rejected [of ?inverted ?late ?early exampleEnv, OF _ _ parse(2) parse(1)]
    by simp
  have 2: "getData exampleEnv ?empty = ([], Inl TimeError)"
    using inverted_time_window_rejected [of ?empty ?early ?early exampleEnv, OF _ _ parse(1) parse(1)]
    by simp
  have 3: "getDataMulti_timeWindow exampleEnv ?good = Inr (1478736000000, 1478899321675)"
    using inverted_time_window_rejected [of ?good ?early ?late exampleEnv, OF _ _ parse(1) parse(2)]
    by simp
  from 1 2 3 show ?thesis by simp
qed

section \<open>C6: the default time windows\<close>

text \<open>
  C6. When the from/to bounds are omitted, the single-sensor export resolves its window to
  the 48 hours ending at the current time and the multi-box export to the 15 days ending at
  the current time, the current time being read at resolution; the single-sensor query and
  the validated parameters of the multi-box export carry exactly these bounds. When the
  to-date is given and the from-date omitted, the from-date is that distance before the
  resolved to-date.
\<close>

theorem default_time_windows:
  "(req_to_date req = None \<and> req_from_date req = None \<longrightarrow>
      getData_timeWindow env req = Inr (e_now env - 48 * 60 * 60 * 1000, e_now env) \<and>
      getDataMulti_timeWindow env req = Inr (e_now env - 15 * 24 * 60 * 60 * 1000, e_now env))
   \<and> (req_to_date req = Some t \<and> e_parseTime env t = Some b \<and> req_from_date req = None \<longrightarrow>
      getData_timeWindow env req = Inr (b - 48 * 60 * 60 * 1000, b) \<and>
      getDataMulti_timeWindow env req = Inr (b - 15 * 24 * 60 * 60 * 1000, b))
   \<and> (req_to_date req = None \<and> req_from_date req = None \<longrightarrow>
      (\<forall>f. req_format req = Some f \<longrightarrow>
         fst (getData env req)
           = getData_headers req f @
             [MeasurementFind
                (getData_qry (req_sensorId req) (e_now env - 48 * 60 * 60 * 1000) (e_now env))]) \<and>
      (\<forall>pr. getDataMulti_params env req = Inr pr \<longrightarrow>
         mp_fromDate pr = e_now env - 15 * 24 * 60 * 60 * 1000 \<and> mp_toDate pr = e_now env))"
proof (intro conjI impI allI)
  assume a: "req_to_date req = None \<and> req_from_date req = None"
  then show w1: "getData_timeWindow env req = Inr (e_now env - 48 * 60 * 60 * 1000, e_now env)"
    by (simp add: window_defs)
  from a show w2: "getDataMulti_timeWindow env req
      = Inr (e_now env - 15 * 24 * 60 * 60 * 1000, e_now env)"
    by (simp add: window_defs)
next
  assume a: "req_to_date req = Some t \<and> e_parseTime env t = Some b \<and> req_from_date req = None"
  then show "getData_timeWindow env req = Inr (b - 48 * 60 * 60 * 1000, b)"
    by (simp add: window_defs)
  from a show "getDataMulti_timeWindow env req = Inr (b - 15 * 24 * 60 * 60 * 1000, b)"
    by (simp add: window_defs)
next
  fix f
  assume a: "req_to_date req = None \<and> req_from_date req = None" and f: "req_format req = Some f"
  from a have "getData_timeWindow env req = Inr (e_now env - 48 * 60 * 60 * 1000, e_now env)"
    by (simp add: window_defs)
  with f show "fst (getData env req)
           = getData_headers req f @
             [MeasurementFind
                (getData_qry (req_sensorId req) (e_now env - 48 * 60 * 60 * 1000) (e_now env))]"
    by (simp add: getData_def Let_def)
next
  fix pr
  assume a: "req_to_date req = None \<and> req_from_date req = None"
    and p: "getDataMulti_params env req = Inr pr"
  from a have "getDataMulti_timeWindow env req
      = Inr (e_now env - 15 * 24 * 60 * 60 * 1000, e_now env)"
    by (simp add: window_defs)
  with getDataMulti_params_InrD(1) [OF p]
  show "mp_fromDate pr = e_now env - 15 * 24 * 60 * 60 * 1000" and "mp_toDate pr = e_now env"
    by simp_all
qed


theorem default_time_windows_witness:
  "getData_timeWindow exampleEnv exampleRequest = Inr (1478727200000, 1478900000000)
   \<and> getDataMulti_timeWindow exampleEnv exampleRequest = Inr (1477604000000, 1478900000000)
   \<and> getDataMulti_timeWindow exampleEnv
        (exampleRequest\<lparr>req_to_date := Some (js ''2016-11-11T21:22:01.675Z'')\<rparr>)
       = Inr (1477603321675, 1478899321675)
   \<and> fst (getData exampleEnv exampleRequest)
       = getData_headers exampleRequest Csv @
         [MeasurementFind
            (getData_qry (js ''57000b8745fd40c8196ad050'') 1478727200000 1478900000000)]
   \<and> getDataMulti_params exampleEnv exampleRequest = Inr exampleParams
   \<and> mp_fromDate exampleParams = 1477604000000 \<and> mp_toDate exampleParams = 1478900000000"
proof -
  have none: "req_to_date exampleRequest = None \<and> req_from_date exampleRequest = None"
    and fmt: "req_format exampleRequest = Some Csv"
    and sid: "req_sensorId exampleRequest = js ''57000b8745fd40c8196ad050''"
    and now: "e_now exampleEnv = 1478900000000"
    by (simp_all add: exampleRequest_def exampleEnv_def)
  let ?to = "exampleRequest\<lparr>req_to_date := Some (js ''2016-11-11T21:22:01.675Z'')\<rparr>"
  have given: "req_to_date ?to = Some (js ''2016-11-11T21:22:01.675Z'')
      \<and> e_parseTime exampleEnv (js ''2016-11-11T21:22:01.675Z'') = Some 1478899321675
      \<and> req_from_date ?to = None"
    by (simp add: exampleRequest_def exampleEnv_def exampleParseTime_def js_def)
  have ok: "getDataMulti_params exampleEnv exampleRequest = Inr exampleParams"
    using example_params [of None] by (simp add: exampleRequest_def)
  from default_time_windows [where req = exampleRequest and env = exampleEnv] none fmt sid now ok
  have 1: "getData_timeWindow exampleEnv exampleRequest = Inr (1478727200000, 1478900000000)
      \<and> getDataMulti_timeWindow exampleEnv exampleRequest = Inr (1477604000000, 1478900000000)
      \<and> fst (getData exampleEnv exampleRequest)
          = getData_headers exampleRequest Csv @
            [MeasurementFind
               (getData_qry (js ''57000b8745fd40c8196ad050'') 1478727200000 1478900000000)]
      \<and> mp_fromDate exampleParams = 1477604000000 \<and> mp_toDate exampleParams = 1478900000000"
    by simp
  from default_time_windows [where req = ?to and t = "js ''2016-11-11T21:22:01.675Z''"
      and env = exampleEnv and b = 1478899321675] given
  have 2: "getDataMulti_timeWindow exampleEnv ?to = Inr (1477603321675, 1478899321675)"
    by simp
  from 1 2 ok show ?thesis by simp
qed

section \<open>Streams that run to completion\<close>

lemma pipeRows_ok:
  "\<forall>x \<in> set xs. \<exists>y. f x = Inr y \<Longrightarrow>
   \<exists>ys. pipeRows f xs = Inr ys \<and> length ys = length xs \<and> list_all2 (\<lambda>x y. f x = Inr y) xs ys"
proof (induction xs)
  case Nil
  show ?case by simp
next
  case (Cons x xs)
  from Cons.prems obtain y where y: "f x = Inr y" by auto
  from Cons.prems have "\<forall>x \<in> set xs. \<exists>y. f x = Inr y" by simp
  from Cons.IH [OF this] obtain ys where
    "pipeRows f xs = Inr ys" "length ys = length xs" "list_all2 (\<lambda>x y. f x = Inr y) xs ys"
    by auto
  with y show ?case by simp
qed

lemma pipeRows_replicate: "f x = Inr y \<Longrightarrow> pipeRows f (replicate n x) = Inr (replicate n y)"
  by (induction n) simp_all

lemma transformer_on_cursor_row:
  assumes "m_sensor_id m \<in> set (map fst sensors)"
    and "toISO (JDate (m_createdAt m)) \<noteq> None"
  shows "\<exists>data'. transformer toISO sensors columns (projectDataMulti m) = Inr data'"
proof -
  from assms(2) obtain v where v: "toISO (JDate (m_createdAt m)) = Some v" by auto
  have c: "rowGet (projectDataMulti m) (js ''createdAt'') = JDate (m_createdAt m)"
    by (simp add: rowGet_def getProp_def projectDataMulti_def js_def)
  let ?d0 = "(projectDataMulti m)\<lparr>r_props := (r_props (projectDataMulti m))(js ''createdAt'' \<mapsto> v)\<rparr>"
  from v c have n: "normalizeCreatedAt toISO (projectDataMulti m) = Inr ?d0"
    by (simp add: normalizeCreatedAt_def)
  from sidecar_key_has_entry [OF assms(1)] obtain entry where
    "map_of sensors (m_sensor_id m) = Some entry" ..
  then have "map_of sensors (sensor_id ?d0) = Some entry"
    by (simp add: projectDataMulti_def)
  from fillColumns_total [OF this] n show ?thesis by (simp add: transformer_def)
qed

lemma csvTransformer_on_cursor_row:
  assumes "dateToISO (JDate (m_createdAt m)) \<noteq> None"
  shows "\<exists>data'. csvTransformer dateToISO (projectData m) = Inr data'"
proof -
  from assms obtain v where v: "dateToISO (JDate (m_createdAt m)) = Some v" by auto
  have "getProp (projectData m) (js ''createdAt'') = JDate (m_createdAt m)"
    by (simp add: getProp_def projectData_def js_def)
  with v show ?thesis by (simp add: csvTransformer_def)
qed

lemma csv_lines_csvstringify:
  "csv_lines (csvstringify get columns delim rows)
     = map JStr columns # map (\<lambda>r. map (get r) columns) rows"
  by (simp add: csv_lines_def csvstringify_def)

lemma example_getDataMulti:
  "snd (getDataMulti exampleEnv exampleRequest) = Inr exampleCsvMulti"
proof -
  have p: "getDataMulti_params exampleEnv exampleRequest = Inr exampleParams"
    using example_params [of None] by (simp add: exampleRequest_def)
  have b: "e_boxFind exampleEnv (mp_queryParams exampleParams) = Inr [exampleBox]"
    by (simp add: exampleEnv_def)
  have s: "buildSidecar (mp_phenomenon exampleParams) [exampleBox] [] = Inr exampleSidecar"
    by (simp add: example_defs model_defs)
  have f: "measurementFind
      (getDataMulti_qry exampleSidecar (mp_fromDate exampleParams) (mp_toDate exampleParams))
      (e_measurements exampleEnv) = [hd exampleMeasurements]"
    by (simp add: example_defs model_defs measurementFind_def getDataMulti_qry_def queryMatches_def)
  have r: "projectDataMulti (hd exampleMeasurements)
      = exampleRow (js ''57000b8745fd40c8196ad050'') (JStr (js ''1019.21''))"
    by (simp add: projectDataMulti_def exampleMeasurements_def exampleRow_def)
  have t: "transformer (e_parseTimestampToISO exampleEnv) exampleSidecar (mp_columns exampleParams)
      (exampleRow (js ''57000b8745fd40c8196ad050'') (JStr (js ''1019.21'')))
      = Inr (exampleRowOut (JStr (js ''1019.21'')))"
    by (simp add: example_defs model_defs)
  have c: "csvstringify rowGet (mp_columns exampleParams) (req_delimiter exampleRequest)
      [exampleRowOut (JStr (js ''1019.21''))] = exampleCsvMulti"
    by (simp add: csvstringify_def exampleCsvMulti_def example_defs rowGet_def getProp_def js_def)
  from p b s f r t c show ?thesis
    by (simp add: getDataMulti_def getDataMulti_stream_def)
qed

lemma example_getData_window:
  "getData_timeWindow exampleEnv exampleRequest = Inr (1478727200000, 1478900000000)"
  "getData_timeWindow exampleManyEnv exampleRequest = Inr (1478727200000, 1478900000000)"
  by (simp_all add: window_defs exampleEnv_def exampleManyEnv_def exampleRequest_def)

lemma example_csvTransformer:
  "csvTransformer exampleToISO (projectData exampleInside) = Inr exampleInsideISO"
  by (simp add: csvTransformer_def projectData_def exampleInside_def exampleInsideISO_def
        exampleToISO_def getProp_def js_def)

lemma example_getData:
  "snd (getData exampleEnv exampleRequest) = Inr (CsvOutput exampleCsvSingle)"
proof -
  have f: "measurementFind
      (getData_qry (req_sensorId exampleRequest) 1478727200000 1478900000000)
      (e_measurements exampleEnv) = [exampleInside]"
    by (simp add: example_defs exampleInside_def measurementFind_def query_defs queryLimit_def js_def)
  have c: "csvstringify getProp [js ''createdAt'', js ''value''] (req_delimiter exampleRequest)
      [exampleInsideISO] = exampleCsvSingle"
    by (simp add: csvstringify_def exampleCsvSingle_def exampleInsideISO_def exampleRequest_def
          getProp_def js_def)
  from example_getData_window(1) f example_csvTransformer c show ?thesis
    by (simp add: getData_def exampleEnv_def exampleRequest_def)
qed

section \<open>C7: the lines of a CSV export\<close>

text \<open>
  C7, as amended. For every CSV export in which no row makes the transform throw, the
  output is one header line of the column names followed by one line per row the cursor
  delivers, in the cursor's order, each with its fields in the order of the columns: so
  \<open>N + 1\<close> lines, where \<open>N\<close> is the number of stored rows matching the query in the
  multi-box export, and that number cut off at 10000 in the single-sensor export. The
  columns are the requested (or default) Export Column Set in the multi-box export and
  \<^verbatim>\<open>createdAt, value\<close> in the single-sensor export. (The serializer is the one
  modelled from the specification.)
\<close>

theorem csv_export_lines:
  "(getDataMulti_params env req = Inr pr \<and> e_boxFind env (mp_queryParams pr) = Inr boxData \<and>
    buildSidecar (mp_phenomenon pr) boxData [] = Inr sensors \<and>
    (\<forall>m \<in> set (measurementFind (getDataMulti_qry sensors (mp_fromDate pr) (mp_toDate pr))
                  (e_measurements env)).
        e_parseTimestampToISO env (JDate (m_createdAt m)) \<noteq> None) \<longrightarrow>
    (\<exists>rows'. snd (getDataMulti env req)
               = Inr (csvstringify rowGet (mp_columns pr) (req_delimiter req) rows') \<and>
       list_all2 (\<lambda>m r. transformer (e_parseTimestampToISO env) sensors (mp_columns pr)
                          (projectDataMulti m) = Inr r)
         (filter (queryMatches (getDataMulti_qry sensors (mp_fromDate pr) (mp_toDate pr)))
            (e_measurements env)) rows' \<and>
       csv_lines (csvstringify rowGet (mp_columns pr) (req_delimiter req) rows')
         = map JStr (mp_columns pr) # map (\<lambda>r. map (rowGet r) (mp_columns pr)) rows' \<and>
       length (csv_lines (csvstringify rowGet (mp_columns pr) (req_delimiter req) rows'))
         = length (filter (queryMatches (getDataMulti_qry sensors (mp_fromDate pr) (mp_toDate pr)))
                     (e_measurements env)) + 1))
   \<and> (getData_timeWindow env req = Inr (fromDate, toDate) \<and> req_format req = Some Csv \<and>
    (\<forall>m \<in> set (measurementFind (getData_qry (req_sensorId req) fromDate toDate)
                  (e_measurements env)).
        e_dateToISO env (JDate (m_createdAt m)) \<noteq> None) \<longrightarrow>
    (\<exists>rows'. snd (getData env req)
               = Inr (CsvOutput (csvstringify getProp [js ''createdAt'', js ''value'']
                                   (req_delimiter req) rows')) \<and>
       list_all2 (\<lambda>m r. csvTransformer (e_dateToISO env) (projectData m) = Inr r)
         (take queryLimit
            (filter (queryMatches (getData_qry (req_sensorId req) fromDate toDate))
               (e_measurements env))) rows' \<and>
       csv_lines (csvstringify getProp [js ''createdAt'', js ''value''] (req_delimiter req) rows')
         = [JStr (js ''createdAt''), JStr (js ''value'')]
           # map (\<lambda>r. [getProp r (js ''createdAt''), getProp r (js ''value'')]) rows' \<and>
       length (csv_lines (csvstringify getProp [js ''createdAt'', js ''value'']
                            (req_delimiter req) rows'))
         = min (length (filter (queryMatches (getData_qry (req_sensorId req) fromDate toDate))
                          (e_measurements env))) queryLimit + 1))"
proof (intro conjI impI)
  let ?q = "getDataMulti_qry sensors (mp_fromDate pr) (mp_toDate pr)"
  let ?f = "transformer (e_parseTimestampToISO env) sensors (mp_columns pr)"
  assume a: "getDataMulti_params env req = Inr pr \<and> e_boxFind env (mp_queryParams pr) = Inr boxData \<and>
    buildSidecar (mp_phenomenon pr) boxData [] = Inr sensors \<and>
    (\<forall>m \<in> set (measurementFind ?q (e_measurements env)).
        e_parseTimestampToISO env (JDate (m_createdAt m)) \<noteq> None)"
  have find: "measurementFind ?q (e_measurements env) = filter (queryMatches ?q) (e_measurements env)"
    by (simp add: measurementFind_def getDataMulti_qry_def)
  have "\<forall>x \<in> set (map projectDataMulti (measurementFind ?q (e_measurements env))). \<exists>y. ?f x = Inr y"
  proof
    fix x assume "x \<in> set (map projectDataMulti (measurementFind ?q (e_measurements env)))"
    then obtain m where m: "m \<in> set (measurementFind ?q (e_measurements env))"
      and x: "x = projectDataMulti m" by auto
    from measurementFind_subset [OF m] have "m_sensor_id m \<in> set (map fst sensors)"
      by (simp add: queryMatches_def getDataMulti_qry_def)
    moreover from a m have "e_parseTimestampToISO env (JDate (m_createdAt m)) \<noteq> None" by simp
    ultimately show "\<exists>y. ?f x = Inr y" unfolding x by (rule transformer_on_cursor_row)
  qed
  from pipeRows_ok [OF this] obtain rows' where
    p: "pipeRows ?f (map projectDataMulti (measurementFind ?q (e_measurements env))) = Inr rows'" and
    l: "length rows' = length (measurementFind ?q (e_measurements env))" and
    r: "list_all2 (\<lambda>x y. ?f x = Inr y)
          (map projectDataMulti (measurementFind ?q (e_measurements env))) rows'"
    by auto
  from a p have out: "snd (getDataMulti env req)
      = Inr (csvstringify rowGet (mp_columns pr) (req_delimiter req) rows')"
    by (simp add: getDataMulti_def getDataMulti_stream_def Let_def)
  from r find have rel: "list_all2 (\<lambda>m r. ?f (projectDataMulti m) = Inr r)
      (filter (queryMatches ?q) (e_measurements env)) rows'"
    by (simp add: list_all2_map1)
  from l find have len: "length (csv_lines (csvstringify rowGet (mp_columns pr) (req_delimiter req) rows'))
      = length (filter (queryMatches ?q) (e_measurements env)) + 1"
    by (simp add: csv_lines_csvstringify)
  from out rel len csv_lines_csvstringify
  show "\<exists>rows'. snd (getDataMulti env req)
               = Inr (csvstringify rowGet (mp_columns pr) (req_delimiter req) rows') \<and>
       list_all2 (\<lambda>m r. ?f (projectDataMulti m) = Inr r)
         (filter (queryMatches ?q) (e_measurements env)) rows' \<and>
       csv_lines (csvstringify rowGet (mp_columns pr) (req_delimiter req) rows')
         = map JStr (mp_columns pr) # map (\<lambda>r. map (rowGet r) (mp_columns pr)) rows' \<and>
       length (csv_lines (csvstringify rowGet (mp_columns pr) (req_delimiter req) rows'))
         = length (filter (queryMatches ?q) (e_measurements env)) + 1"
    by (intro exI [of _ rows'] conjI) simp_all
next
  let ?q = "getData_qry (req_sensorId req) fromDate toDate"
  let ?f = "csvTransformer (e_dateToISO env)"
  let ?cols = "[js ''createdAt'', js ''value'']"
  assume a: "getData_timeWindow env req = Inr (fromDate, toDate) \<and> req_format req = Some Csv \<and>
    (\<forall>m \<in> set (measurementFind ?q (e_measurements env)).
        e_dateToISO env (JDate (m_createdAt m)) \<noteq> None)"
  have find: "measurementFind ?q (e_measurements env)
      = take queryLimit (filter (queryMatches ?q) (e_measurements env))"
    by (simp add: measurementFind_def getData_qry_def)
  have "\<forall>x \<in> set (map projectData (measurementFind ?q (e_measurements env))). \<exists>y. ?f x = Inr y"
  proof
    fix x assume "x \<in> set (map projectData (measurementFind ?q (e_measurements env)))"
    then obtain m where m: "m \<in> set (measurementFind ?q (e_measurements env))"
      and x: "x = projectData m" by auto
    from a m have "e_dateToISO env (JDate (m_createdAt m)) \<noteq> None" by simp
    then show "\<exists>y. ?f x = Inr y" unfolding x by (rule csvTransformer_on_cursor_row)
  qed
  from pipeRows_ok [OF this] obtain rows' where
    p: "pipeRows ?f (map projectData (measurementFind ?q (e_measurements env))) = Inr rows'" and
    l: "length rows' = length (measurementFind ?q (e_measurements env))" and
    r: "list_all2 (\<lambda>x y. ?f x = Inr y)
          (map projectData (measurementFind ?q (e_measurements env))) rows'"
    by auto
  from a p have out: "snd (getData env req)
      = Inr (CsvOutput (csvstringify getProp ?cols (req_delimiter req) rows'))"
    by (simp add: getData_def Let_def)
  from r find have rel: "list_all2 (\<lambda>m r. ?f (projectData m) = Inr r)
      (take queryLimit (filter (queryMatches ?q) (e_measurements env))) rows'"
    by (simp add: list_all2_map1)
  from l find have len: "length (csv_lines (csvstringify getProp ?cols (req_delimiter req) rows'))
      = min (length (filter (queryMatches ?q) (e_measurements env))) queryLimit + 1"
    by (simp add: csv_lines_csvstringify)
  have lines: "csv_lines (csvstringify getProp ?cols (req_delimiter req) rows')
         = [JStr (js ''createdAt''), JStr (js ''value'')]
           # map (\<lambda>r. [getProp r (js ''createdAt''), getProp r (js ''value'')]) rows'"
    by (simp add: csv_lines_csvstringify)
  from out rel len lines
  show "\<exists>rows'. snd (getData env req)
               = Inr (CsvOutput (csvstringify getProp ?cols (req_delimiter req) rows')) \<and>
       list_all2 (\<lambda>m r. ?f (projectData m) = Inr r)
         (take queryLimit (filter (queryMatches ?q) (e_measurements env))) rows' \<and>
       csv_lines (csvstringify getProp ?cols (req_delimiter req) rows')
         = [JStr (js ''createdAt''), JStr (js ''value'')]
           # map (\<lambda>r. [getProp r (js ''createdAt''), getProp r (js ''value'')]) rows' \<and>
       length (csv_lines (csvstringify getProp ?cols (req_delimiter req) rows'))
         = min (length (filter (queryMatches ?q) (e_measurements env))) queryLimit + 1"
    by (intro exI [of _ rows'] conjI) simp_all
qed


theorem csv_export_lines_witness:
  "snd (getDataMulti exampleEnv exampleRequest) = Inr exampleCsvMulti
   \<and> csv_lines exampleCsvMulti
       = [[JStr (js ''createdAt''), JStr (js ''value''), JStr (js ''lat''), JStr (js ''lng'')],
          [JStr (js ''2016-11-11T21:22:01.675Z''), JStr (js ''1019.21''),
           JNum 7.64568, JNum 51.962372]]
   \<and> length (csv_lines exampleCsvMulti)
       = length (filter (queryMatches (getDataMulti_qry exampleSidecar 1477604000000 1478900000000))
                   exampleMeasurements) + 1
   \<and> snd (getData exampleEnv exampleRequest) = Inr (CsvOutput exampleCsvSingle)
   \<and> csv_lines exampleCsvSingle
       = [[JStr (js ''createdAt''), JStr (js ''value'')],
          [JStr (js ''2016-11-11T21:22:01.675Z''), JStr (js ''1019.21'')]]
   \<and> length (csv_lines exampleCsvSingle)
       = length (filter (queryMatches
                   (getData_qry (js ''57000b8745fd40c8196ad050'') 1478727200000 1478900000000))
                   exampleMeasurements) + 1"
proof -
  let ?qm = "getDataMulti_qry exampleSidecar (mp_fromDate exampleParams) (mp_toDate exampleParams)"
  let ?qs = "getData_qry (req_sensorId exampleRequest) 1478727200000 1478900000000"
  have p: "getDataMulti_params exampleEnv exampleRequest = Inr exampleParams"
    using example_params [of None] by (simp add: exampleRequest_def)
  have b: "e_boxFind exampleEnv (mp_queryParams exampleParams) = Inr [exampleBox]"
    by (simp add: exampleEnv_def)
  have s: "buildSidecar (mp_phenomenon exampleParams) [exampleBox] [] = Inr exampleSidecar"
    by (simp add: example_defs model_defs)
  have fm: "measurementFind ?qm (e_measurements exampleEnv) = [hd exampleMeasurements]"
    by (simp add: example_defs model_defs measurementFind_def getDataMulti_qry_def queryMatches_def)
  have fs: "measurementFind ?qs (e_measurements exampleEnv) = [hd exampleMeasurements]"
    by (simp add: example_defs measurementFind_def query_defs queryLimit_def js_def)
  have iso: "exampleToISO (JDate (m_createdAt (hd exampleMeasurements))) \<noteq> None"
    by (simp add: exampleToISO_def exampleMeasurements_def)
  have e: "e_parseTimestampToISO exampleEnv = exampleToISO" "e_dateToISO exampleEnv = exampleToISO"
    "e_measurements exampleEnv = exampleMeasurements"
    "mp_fromDate exampleParams = 1477604000000" "mp_toDate exampleParams = 1478900000000"
    "req_sensorId exampleRequest = js ''57000b8745fd40c8196ad050''"
    "req_format exampleRequest = Some Csv"
    by (simp_all add: exampleEnv_def exampleParams_def exampleRequest_def)
  note c7 = csv_export_lines [where env = exampleEnv and req = exampleRequest]
  from c7 [where pr = exampleParams and boxData = "[exampleBox]" and sensors = exampleSidecar,
      THEN conjunct1] p b s fm iso e example_getDataMulti
  have 1: "length (csv_lines exampleCsvMulti)
       = length (filter (queryMatches (getDataMulti_qry exampleSidecar 1477604000000 1478900000000))
                   exampleMeasurements) + 1"
    by auto
  from c7 [where fromDate = 1478727200000 and toDate = 1478900000000, THEN conjunct2]
    example_getData_window(1) fs iso e example_getData
  have 2: "length (csv_lines exampleCsvSingle)
       = min (length (filter (queryMatches
                   (getData_qry (js ''57000b8745fd40c8196ad050'') 1478727200000 1478900000000))
                   exampleMeasurements)) queryLimit + 1"
    by auto
  have small: "length (filter (queryMatches
                   (getData_qry (js ''57000b8745fd40c8196ad050'') 1478727200000 1478900000000))
                   exampleMeasurements) \<le> queryLimit"
    by (simp add: queryLimit_def exampleMeasurements_def)
  have lines: "csv_lines exampleCsvMulti
       = [[JStr (js ''createdAt''), JStr (js ''value''), JStr (js ''lat''), JStr (js ''lng'')],
          [JStr (js ''2016-11-11T21:22:01.675Z''), JStr (js ''1019.21''),
           JNum 7.64568, JNum 51.962372]]"
    "csv_lines exampleCsvSingle
       = [[JStr (js ''createdAt''), JStr (js ''value'')],
          [JStr (js ''2016-11-11T21:22:01.675Z''), JStr (js ''1019.21'')]]"
    by (simp_all add: csv_lines_def exampleCsvMulti_def exampleCsvSingle_def)
  from 1 2 small lines example_getDataMulti example_getData show ?thesis by simp
qed

text \<open>
  C7 as stated fails in the single-sensor export beyond its limit: of 10001 stored rows
  of the sensor inside the window, the export writes the header and 10000 lines, 10001
  lines in all and not 10002.
\<close>

theorem csv_export_cut_by_limit:
  "length (filter (queryMatches
             (getData_qry (js ''57000b8745fd40c8196ad050'') 1478727200000 1478900000000))
             (e_measurements exampleManyEnv)) = 10001
   \<and> fst (getData exampleManyEnv exampleRequest)
       = getData_headers exampleRequest Csv @
         [MeasurementFind
            (getData_qry (js ''57000b8745fd40c8196ad050'') 1478727200000 1478900000000)]
   \<and> snd (getData exampleManyEnv exampleRequest)
       = Inr (CsvOutput (csvstringify getProp [js ''createdAt'', js ''value''] (js '','')
                           (replicate 10000 exampleInsideISO)))
   \<and> length (csv_lines (csvstringify getProp [js ''createdAt'', js ''value''] (js '','')
                           (replicate 10000 exampleInsideISO))) = 10001"
proof -
  let ?q = "getData_qry (js ''57000b8745fd40c8196ad050'') 1478727200000 1478900000000"
  have m: "queryMatches ?q exampleInside"
    by (simp add: query_defs exampleInside_def)
  have e: "e_measurements exampleManyEnv = replicate 10001 exampleInside"
    "e_dateToISO exampleManyEnv = exampleToISO"
    "req_sensorId exampleRequest = js ''57000b8745fd40c8196ad050''"
    "req_format exampleRequest = Some Csv" "req_delimiter exampleRequest = js '',''"
    by (simp_all add: exampleManyEnv_def exampleEnv_def exampleRequest_def)
  from m have fl: "filter (queryMatches ?q) (replicate 10001 exampleInside)
      = replicate 10001 exampleInside"
    by (simp add: filter_replicate)
  then have f: "measurementFind ?q (replicate 10001 exampleInside) = replicate 10000 exampleInside"
    by (simp add: measurementFind_def getData_qry_def queryLimit_def)
  have p: "pipeRows (csvTransformer exampleToISO) (replicate 10000 (projectData exampleInside))
      = Inr (replicate 10000 exampleInsideISO)"
    by (rule pipeRows_replicate [of "csvTransformer exampleToISO" "projectData exampleInside"
          exampleInsideISO 10000, OF example_csvTransformer])
  have 1: "length (filter (queryMatches ?q) (e_measurements exampleManyEnv)) = 10001"
    using fl e by simp
  have 2: "getData exampleManyEnv exampleRequest
      = (getData_headers exampleRequest Csv @ [MeasurementFind ?q],
         Inr (CsvOutput (csvstringify getProp [js ''createdAt'', js ''value''] (js '','')
                           (replicate 10000 exampleInsideISO))))"
    using example_getData_window(2) e f p by (simp add: getData_def)
  have 3: "length (csv_lines (csvstringify getProp [js ''createdAt'', js ''value''] (js '','')
                           (replicate 10000 exampleInsideISO))) = 10001"
    by (simp add: csv_lines_csvstringify)
  from 1 2 3 show ?thesis by simp
qed

section \<open>C8: a body that fails to decode\<close>

text \<open>
  C8. For every ingestion request whose body fails to decode (whatever the decoder
  refuses: a malformed payload, a batch over the cap, an unparseable timestamp or value),
  both \<^verbatim>\<open>postNewMeasurement\<close> and \<^verbatim>\<open>postNewMeasurements\<close> answer with an
  UnprocessableEntity error carrying the decoder's message and do nothing else: no box
  lookup and no save. A body that decodes, by contrast, leads to the box lookup first.
\<close>

theorem decode_failure_no_storage:
  "(decodeMessage [[js ''sensor_id'' \<mapsto> sensorId, js ''value'' \<mapsto> val, js ''createdAt'' \<mapsto> createdAt]]
      = Inl message \<longrightarrow>
      postNewMeasurement decodeMessage findOne saveMeasurement boxId sensorId val createdAt
        = [NextError (UnprocessableEntityError message)] \<and>
      \<not> list_ex isStorageEvent
          (postNewMeasurement decodeMessage findOne saveMeasurement boxId sensorId val createdAt))
   \<and> (decodeHandlers contentType = Some decode \<and> decode body = Inl message' \<longrightarrow>
      postNewMeasurements decodeHandlers findOne' saveMeasurementsArray path contentType body
        = [NextError (UnprocessableEntityError message')] \<and>
      \<not> list_ex isStorageEvent
          (postNewMeasurements decodeHandlers findOne' saveMeasurementsArray path contentType body))
   \<and> (decodeMessage [[js ''sensor_id'' \<mapsto> sensorId, js ''value'' \<mapsto> val, js ''createdAt'' \<mapsto> createdAt]]
      = Inr ms \<longrightarrow>
      hd (postNewMeasurement decodeMessage findOne saveMeasurement boxId sensorId val createdAt)
        = BoxFindOne boxId)
   \<and> (decodeHandlers contentType = Some decode \<and> decode body = Inr ms' \<longrightarrow>
      hd (postNewMeasurements decodeHandlers findOne' saveMeasurementsArray path contentType body)
        = BoxFindOne (pathBoxId path))"
  by (simp add: postNewMeasurement_def postNewMeasurements_def Let_def)

theorem decode_failure_no_storage_witness:
  "postNewMeasurement exampleJsonDecode exampleFindOne (\<lambda>box m. Inr ())
       (JStr (b_id exampleBox)) (JStr (s_id exampleSensor)) JUndefined JUndefined
     = [NextError (UnprocessableEntityError (js ''missing value''))]
   \<and> postNewMeasurements exampleDecodeHandlers exampleFindOne (\<lambda>box ms. Inr ())
       (js ''/boxes/57000b8745fd40c8196ad04c/data'') (js ''text/csv'') []
     = [NextError (UnprocessableEntityError (js ''empty body''))]
   \<and> hd (postNewMeasurement exampleJsonDecode exampleFindOne (\<lambda>box m. Inr ())
       (JStr (b_id exampleBox)) (JStr (s_id exampleSensor)) (JStr (js ''1019.21'')) JUndefined)
     = BoxFindOne (JStr (b_id exampleBox))
   \<and> postNewMeasurements exampleDecodeHandlers exampleFindOne (\<lambda>box ms. Inr ())
       (js ''/boxes/57000b8745fd40c8196ad04c/data'') (js ''text/csv'')
       (js ''57000b8745fd40c8196ad050,1019.21'')
     = [BoxFindOne (JStr (js ''57000b8745fd40c8196ad04c'')),
        SaveMeasurementsArray [js ''57000b8745fd40c8196ad050,1019.21''],
        ResSend 201 (js ''Measurements saved in box'')]"
proof -
  let ?noValue = "[[js ''sensor_id'' \<mapsto> JStr (s_id exampleSensor), js ''value'' \<mapsto> JUndefined,
                    js ''createdAt'' \<mapsto> JUndefined]]"
  let ?withValue = "[[js ''sensor_id'' \<mapsto> JStr (s_id exampleSensor),
                      js ''value'' \<mapsto> JStr (js ''1019.21''), js ''createdAt'' \<mapsto> JUndefined]]"
  have d1: "exampleJsonDecode ?noValue = Inl (js ''missing value'')"
    by (simp add: exampleJsonDecode_def getProp_def js_def)
  have d2: "exampleJsonDecode ?withValue = Inr ?withValue"
    by (simp add: exampleJsonDecode_def getProp_def js_def)
  have h: "exampleDecodeHandlers (js ''text/csv'')
      = Some (\<lambda>body. if body = [] then Inl (js ''empty body'') else Inr (split 0x0A body))"
    by (simp add: exampleDecodeHandlers_def)
  note c8 = decode_failure_no_storage
  from c8 [where decodeMessage = exampleJsonDecode and val = JUndefined
      and sensorId = "JStr (s_id exampleSensor)" and createdAt = JUndefined
      and message = "js ''missing value''" and findOne = exampleFindOne
      and boxId = "JStr (b_id exampleBox)" and saveMeasurement = "\<lambda>box m. Inr ()",
      THEN conjunct1] d1
  have 1: "postNewMeasurement exampleJsonDecode exampleFindOne (\<lambda>box m. Inr ())
       (JStr (b_id exampleBox)) (JStr (s_id exampleSensor)) JUndefined JUndefined
     = [NextError (UnprocessableEntityError (js ''missing value''))]"
    by simp
  from c8 [where decodeHandlers = exampleDecodeHandlers and contentType = "js ''text/csv''"
      and body = "[]" and message' = "js ''empty body''" and findOne' = exampleFindOne
      and saveMeasurementsArray = "\<lambda>box ms. Inr ()"
      and path = "js ''/boxes/57000b8745fd40c8196ad04c/data''"
      and decode = "\<lambda>body. if body = [] then Inl (js ''empty body'') else Inr (split 0x0A body)",
      THEN conjunct2, THEN conjunct1] h
  have 2: "postNewMeasurements exampleDecodeHandlers exampleFindOne (\<lambda>box ms. Inr ())
       (js ''/boxes/57000b8745fd40c8196ad04c/data'') (js ''text/csv'') []
     = [NextError (UnprocessableEntityError (js ''empty body''))]"
    by simp
  from c8 [where decodeMessage = exampleJsonDecode and val = "JStr (js ''1019.21'')"
      and sensorId = "JStr (s_id exampleSensor)" and createdAt = JUndefined
      and ms = ?withValue and findOne = exampleFindOne
      and boxId = "JStr (b_id exampleBox)" and saveMeasurement = "\<lambda>box m. Inr ()",
      THEN conjunct2, THEN conjunct2, THEN conjunct1] d2
  have 3: "hd (postNewMeasurement exampleJsonDecode exampleFindOne (\<lambda>box m. Inr ())
       (JStr (b_id exampleBox)) (JStr (s_id exampleSensor)) (JStr (js ''1019.21'')) JUndefined)
     = BoxFindOne (JStr (b_id exampleBox))"
    by simp
  have 4: "postNewMeasurements exampleDecodeHandlers exampleFindOne (\<lambda>box ms. Inr ())
       (js ''/boxes/57000b8745fd40c8196ad04c/data'') (js ''text/csv'')
       (js ''57000b8745fd40c8196ad050,1019.21'')
     = [BoxFindOne (JStr (js ''57000b8745fd40c8196ad04c'')),
        SaveMeasurementsArray [js ''57000b8745fd40c8196ad050,1019.21''],
        ResSend 201 (js ''Measurements saved in box'')]"
    by (simp add: postNewMeasurements_def exampleDecodeHandlers_def exampleFindOne_def
          pathBoxId_def slash_def exampleBox_def js_def)
  from 1 2 3 4 show ?thesis by simp
qed


section \<open>The limit of the single-sensor query\<close>

lemma measurementFind_under_limit:
  "m \<in> set ms \<Longrightarrow> queryMatches q m \<Longrightarrow> q_limit q = Some n \<Longrightarrow>
   length (filter (queryMatches q) ms) \<le> n \<Longrightarrow> m \<in> set (measurementFind q ms)"
  by (simp add: measurementFind_def)

section \<open>C9: the bounds of the time window in the two exports\<close>

text \<open>
  C9, as amended. For a valid window and a measurement of a sensor both exports cover,
  timestamped exactly at the from or the to bound: the query of the single-sensor export
  (\<^verbatim>\<open>$gte\<close>, \<^verbatim>\<open>$lte\<close>) matches it and the query of the multi-box export
  (\<^verbatim>\<open>$gt\<close>, \<^verbatim>\<open>$lt\<close>) does not; the multi-box export never returns it, and the
  single-sensor export returns it whenever the matching measurements do not exceed its
  limit of 10000 rows.
\<close>

theorem window_bounds_differ:
  assumes "fromDate < toDate"
    and "m_createdAt m = fromDate \<or> m_createdAt m = toDate"
    and "m_sensor_id m = sensorId"
    and "sensorId \<in> set (map fst sensors)"
  shows "queryMatches (getData_qry sensorId fromDate toDate) m
       \<and> \<not> queryMatches (getDataMulti_qry sensors fromDate toDate) m
       \<and> m \<notin> set (measurementFind (getDataMulti_qry sensors fromDate toDate) ms)
       \<and> (m \<in> set ms \<and>
            length (filter (queryMatches (getData_qry sensorId fromDate toDate)) ms) \<le> queryLimit \<longrightarrow>
            m \<in> set (measurementFind (getData_qry sensorId fromDate toDate) ms))"
proof -
  have single: "queryMatches (getData_qry sensorId fromDate toDate) m"
    using assms by (auto simp: query_defs)
  have multi: "\<not> queryMatches (getDataMulti_qry sensors fromDate toDate) m"
    using assms(2) by (auto simp: query_defs)
  have notin: "m \<notin> set (measurementFind (getDataMulti_qry sensors fromDate toDate) ms)"
    using multi measurementFind_subset by blast
  have lim: "q_limit (getData_qry sensorId fromDate toDate) = Some queryLimit"
    by (simp add: getData_qry_def)
  have "m \<in> set (measurementFind (getData_qry sensorId fromDate toDate) ms)"
    if "m \<in> set ms"
      and "length (filter (queryMatches (getData_qry sensorId fromDate toDate)) ms) \<le> queryLimit"
    using that(1) single lim that(2) by (rule measurementFind_under_limit)
  with single multi notin show ?thesis by simp
qed

theorem window_bounds_differ_witness:
  "queryMatches (getData_qry (js ''57000b8745fd40c8196ad050'') 1478727200000 1478900000000)
     exampleAtBound
   \<and> \<not> queryMatches (getDataMulti_qry exampleSidecar 1478727200000 1478900000000) exampleAtBound
   \<and> exampleAtBound \<notin> set (measurementFind
        (getDataMulti_qry exampleSidecar 1478727200000 1478900000000)
        [exampleInside, exampleAtBound])
   \<and> exampleAtBound \<in> set (measurementFind
        (getData_qry (js ''57000b8745fd40c8196ad050'') 1478727200000 1478900000000)
        [exampleInside, exampleAtBound])"
proof -
  have h: "(1478727200000::int) < 1478900000000"
    "m_createdAt exampleAtBound = 1478727200000 \<or> m_createdAt exampleAtBound = 1478900000000"
    "m_sensor_id exampleAtBound = js ''57000b8745fd40c8196ad050''"
    "js ''57000b8745fd40c8196ad050'' \<in> set (map fst exampleSidecar)"
    by (simp_all add: exampleAtBound_def exampleSidecar_def)
  have s: "exampleAtBound \<in> set [exampleInside, exampleAtBound] \<and>
      length (filter (queryMatches
        (getData_qry (js ''57000b8745fd40c8196ad050'') 1478727200000 1478900000000))
        [exampleInside, exampleAtBound]) \<le> queryLimit"
    by (simp add: queryLimit_def)
  from window_bounds_differ [OF h, of "[exampleInside, exampleAtBound]"] s
  show ?thesis by simp
qed

text \<open>
  C9 as stated fails where the limit cuts: with ten thousand matching measurements stored
  before it, a measurement exactly at the to-date matches the single-sensor query but is
  not among the rows the single-sensor export returns, so the two exports agree on it:
  neither returns it.
\<close>

theorem bound_row_cut_by_limit:
  "m_createdAt exampleAtBound = 1478900000000
   \<and> exampleAtBound \<in> set exampleFullStore
   \<and> queryMatches (getData_qry (js ''57000b8745fd40c8196ad050'') 1478727200000 1478900000000)
       exampleAtBound
   \<and> exampleAtBound \<notin> set (measurementFind
        (getData_qry (js ''57000b8745fd40c8196ad050'') 1478727200000 1478900000000)
        exampleFullStore)
   \<and> exampleAtBound \<notin> set (measurementFind
        (getDataMulti_qry exampleSidecar 1478727200000 1478900000000) exampleFullStore)"
proof -
  let ?q = "getData_qry (js ''57000b8745fd40c8196ad050'') 1478727200000 1478900000000"
  have i: "queryMatches ?q exampleInside" and b: "queryMatches ?q exampleAtBound"
    by (simp_all add: query_defs exampleInside_def exampleAtBound_def)
  have ne: "exampleAtBound \<noteq> exampleInside"
    by (simp add: exampleInside_def exampleAtBound_def)
  have "measurementFind ?q exampleFullStore = replicate 10000 exampleInside"
    using i b by (simp add: measurementFind_def getData_qry_def queryLimit_def exampleFullStore_def)
  with ne have 1: "exampleAtBound \<notin> set (measurementFind ?q exampleFullStore)" by simp
  have "\<not> queryMatches (getDataMulti_qry exampleSidecar 1478727200000 1478900000000) exampleAtBound"
    by (simp add: query_defs exampleAtBound_def)
  then have 2: "exampleAtBound \<notin> set (measurementFind
        (getDataMulti_qry exampleSidecar 1478727200000 1478900000000) exampleFullStore)"
    using measurementFind_subset by blast
  have 3: "m_createdAt exampleAtBound = 1478900000000 \<and> exampleAtBound \<in> set exampleFullStore"
    by (simp add: exampleAtBound_def exampleFullStore_def)
  from 1 2 3 b show ?thesis by simp
qed


section \<open>The entries of a built Sidecar\<close>






section \<open>C10: latitude and longitude in the two views\<close>




end
